theory Spec2Isabelle
  imports Main "HOL-Library.AList"
begin

section \<open>Python values\<close>

text \<open>
  The values that \<^verbatim>\<open>json.loads\<close> produces and \<^verbatim>\<open>json.dumps\<close> consumes. A Python
  \<^verbatim>\<open>dict\<close> keeps its keys in insertion order, so an object is an association list. A
  \<^verbatim>\<open>float\<close> is carried by its \<^verbatim>\<open>repr\<close> (\<^verbatim>\<open>0.7\<close>, \<^verbatim>\<open>1e+16\<close>, \<^verbatim>\<open>inf\<close>, \<^verbatim>\<open>nan\<close>), the only
  thing this program ever does with one being to print it. A \<^verbatim>\<open>str\<close> is a \<^typ>\<open>string\<close>:
  its characters are the code points below 256.
\<close>

datatype json =
    JNull
  | JBool bool
  | JInt int
  | JFloat string
  | JStr string
  | JArr "json list"
  | JObj "(string \<times> json) list"

text \<open>\<^verbatim>\<open>d.get(k, default)\<close> on a dict with string keys.\<close>

definition dict_get :: "(string \<times> json) list \<Rightarrow> string \<Rightarrow> json \<Rightarrow> json" where
  "dict_get d k dflt = (case map_of d k of Some v \<Rightarrow> v | None \<Rightarrow> dflt)"

text \<open>Exceptions: the class that the handlers of the program tell apart, and \<^verbatim>\<open>str(e)\<close>.\<close>

datatype exn_kind =
    JSONDecodeError
  | AttributeError
  | TypeError
  | ConnectionClosed
  | WebSocketDisconnect
  | OtherException

datatype exn = Exn exn_kind string

fun exn_kind_of :: "exn \<Rightarrow> exn_kind" where
  "exn_kind_of (Exn k m) = k"

fun exn_text :: "exn \<Rightarrow> string" where
  "exn_text (Exn k m) = m"

text \<open>The outcome of an operation on a socket or on the database: it returns or it raises.\<close>

datatype io = Ok | Raise exn

fun succeeded :: "io \<Rightarrow> bool" where
  "succeeded Ok = True"
| "succeeded (Raise e) = False"

subsection \<open>Decimal and hexadecimal digits\<close>

function show_nat :: "nat \<Rightarrow> string" where
  "show_nat n =
     (if n < 10 then [char_of (48 + n)]
      else show_nat (n div 10) @ [char_of (48 + n mod 10)])"
  by pat_completeness auto
termination
  by (relation "measure id") auto

definition show_int :: "int \<Rightarrow> string" where
  "show_int i = (if i < 0 then CHR ''-'' # show_nat (nat (- i)) else show_nat (nat i))"

definition hex_digit :: "nat \<Rightarrow> char" where
  "hex_digit d = (if d < 10 then char_of (48 + d) else char_of (87 + d))"

fun join :: "string \<Rightarrow> string list \<Rightarrow> string" where
  "join sep [] = []"
| "join sep [x] = x"
| "join sep (x # y # ys) = x @ sep @ join sep (y # ys)"

subsection \<open>\<^verbatim>\<open>json.dumps\<close> with its default arguments\<close>

text \<open>
  The defaults are \<^verbatim>\<open>ensure_ascii=True\<close> and the separators \<^verbatim>\<open>", "\<close> and \<^verbatim>\<open>": "\<close>. Inside a
  string the quote, the backslash and every character outside \<^verbatim>\<open>' '..'~'\<close> are escaped.
\<close>

definition escape_char :: "char \<Rightarrow> string" where
  "escape_char c =
     (if c = CHR 0x22 then [CHR 0x5C, CHR 0x22]
      else if c = CHR 0x5C then [CHR 0x5C, CHR 0x5C]
      else if c = CHR 0x0A then [CHR 0x5C, CHR ''n'']
      else if c = CHR 0x0D then [CHR 0x5C, CHR ''r'']
      else if c = CHR 0x09 then [CHR 0x5C, CHR ''t'']
      else if c = CHR 0x08 then [CHR 0x5C, CHR ''b'']
      else if c = CHR 0x0C then [CHR 0x5C, CHR ''f'']
      else if (of_char c :: nat) < 32 \<or> 126 < (of_char c :: nat)
        then [CHR 0x5C, CHR ''u'', CHR ''0'', CHR ''0'',
              hex_digit (of_char c div 16), hex_digit (of_char c mod 16)]
      else [c])"

definition encode_string :: "string \<Rightarrow> string" where
  "encode_string s = CHR 0x22 # concat (map escape_char s) @ [CHR 0x22]"

definition dumps_float :: "string \<Rightarrow> string" where
  "dumps_float r =
     (if r = ''nan'' then ''NaN''
      else if r = ''inf'' then ''Infinity''
      else if r = ''-inf'' then ''-Infinity''
      else r)"

fun json_dumps :: "json \<Rightarrow> string" where
  "json_dumps JNull = ''null''"
| "json_dumps (JBool b) = (if b then ''true'' else ''false'')"
| "json_dumps (JInt i) = show_int i"
| "json_dumps (JFloat r) = dumps_float r"
| "json_dumps (JStr s) = encode_string s"
| "json_dumps (JArr vs) = ''['' @ join '', '' (map json_dumps vs) @ '']''"
| "json_dumps (JObj kvs) =
     ''{'' @ join '', '' (map (\<lambda>(k, v). encode_string k @ '': '' @ json_dumps v) kvs) @ ''}''"

subsection \<open>\<^verbatim>\<open>str()\<close>, as an f-string applies it\<close>

definition repr_char :: "char \<Rightarrow> char \<Rightarrow> string" where
  "repr_char q c =
     (if c = q \<or> c = CHR 0x5C then [CHR 0x5C, c]
      else if c = CHR 0x09 then [CHR 0x5C, CHR ''t'']
      else if c = CHR 0x0A then [CHR 0x5C, CHR ''n'']
      else if c = CHR 0x0D then [CHR 0x5C, CHR ''r'']
      else if (of_char c :: nat) < 32 \<or> (127 \<le> (of_char c :: nat) \<and> (of_char c :: nat) \<le> 160)
              \<or> (of_char c :: nat) = 173
        then [CHR 0x5C, CHR ''x'', hex_digit (of_char c div 16), hex_digit (of_char c mod 16)]
      else [c])"

definition repr_str :: "string \<Rightarrow> string" where
  "repr_str s =
     (let q = (if CHR 0x27 \<in> set s \<and> CHR 0x22 \<notin> set s then CHR 0x22 else CHR 0x27)
      in q # concat (map (repr_char q) s) @ [q])"

fun py_repr :: "json \<Rightarrow> string" where
  "py_repr JNull = ''None''"
| "py_repr (JBool b) = (if b then ''True'' else ''False'')"
| "py_repr (JInt i) = show_int i"
| "py_repr (JFloat r) = r"
| "py_repr (JStr s) = repr_str s"
| "py_repr (JArr vs) = ''['' @ join '', '' (map py_repr vs) @ '']''"
| "py_repr (JObj kvs) =
     ''{'' @ join '', '' (map (\<lambda>(k, v). repr_str k @ '': '' @ py_repr v) kvs) @ ''}''"

definition py_str :: "json \<Rightarrow> string" where
  "py_str v = (case v of JStr s \<Rightarrow> s | _ \<Rightarrow> py_repr v)"

text \<open>The name of a value's class, as an \<^verbatim>\<open>AttributeError\<close> or a \<^verbatim>\<open>TypeError\<close> prints it.\<close>

fun type_name :: "json \<Rightarrow> string" where
  "type_name JNull = ''NoneType''"
| "type_name (JBool b) = ''bool''"
| "type_name (JInt i) = ''int''"
| "type_name (JFloat r) = ''float''"
| "type_name (JStr s) = ''str''"
| "type_name (JArr vs) = ''list''"
| "type_name (JObj kvs) = ''dict''"

definition no_attribute_get :: "json \<Rightarrow> exn" where
  "no_attribute_get v =
     Exn AttributeError
       ([CHR 0x27] @ type_name v @ [CHR 0x27] @ '' object has no attribute '' @
        [CHR 0x27] @ ''get'' @ [CHR 0x27])"

definition unhashable :: "json \<Rightarrow> exn" where
  "unhashable v =
     Exn TypeError (''unhashable type: '' @ [CHR 0x27] @ type_name v @ [CHR 0x27])"

section \<open>Configuration constants\<close>

definition BASE_PROMPTS :: "(string \<times> string) list" where
  "BASE_PROMPTS = [
  (''reflection'',
   ''You are a thoughtful journaling assistant helping someone reflect on their day. \<newline>        Ask open-ended questions that encourage deep thinking about experiences, emotions, and lessons learned. \<newline>        Be empathetic, curious, and help them process their thoughts. Keep responses concise but meaningful.''),
  (''planning'',
   ''You are a planning assistant helping someone organize their thoughts for upcoming days/weeks. \<newline>        Help them set realistic goals, prioritize tasks, and think through potential challenges. \<newline>        Ask clarifying questions about their intentions and help them create actionable plans.''),
  (''notes'',
   ''You are a note-taking assistant helping someone do a brain dump. \<newline>        Help them organize their thoughts, capture all items, and structure their ideas clearly. \<newline>        Ask clarifying questions to ensure nothing is missed.''),
  (''goals'',
   ''You are a goal-tracking assistant. Help review previous goals, assess progress, \<newline>        and set new objectives. Be encouraging but realistic about what can be accomplished.'')]"

definition VOICE_PROMPTS :: "(string \<times> string) list" where
  "VOICE_PROMPTS = [
  (''reflection'',
   ''You are a thoughtful journaling assistant helping someone reflect on their day while they're driving. \<newline>        Keep responses conversational and concise. Ask one question at a time. Be empathetic and encouraging. \<newline>        Help them process their thoughts safely while driving.''),
  (''planning'',
   ''You are a planning assistant helping someone organize their thoughts for upcoming days while driving. \<newline>        Keep responses brief and focused. Help them set realistic goals and think through challenges. \<newline>        Ask clarifying questions one at a time.''),
  (''notes'',
   ''You are a note-taking assistant helping someone do a brain dump while driving. \<newline>        Help them organize their thoughts clearly. Acknowledge what they've shared and ask for clarification when needed. \<newline>        Keep responses short and conversational.''),
  (''goals'',
   ''You are a goal-tracking assistant helping someone review and set goals while driving. \<newline>        Be encouraging and realistic. Keep responses brief and ask one question at a time. \<newline>        Help them think through their objectives safely.'')]"

definition INITIAL_MESSAGES :: "(string \<times> string) list" where
  "INITIAL_MESSAGES = [
  (''reflection'',
   ''Hi! I'm here to help you reflect on your day. What's been on your mind today?''),
  (''planning'',
   ''Let's plan ahead! What are you thinking about for tomorrow or the coming days?''),
  (''notes'',
   ''Ready for a brain dump! Tell me everything that's on your mind - I'll help you organize it.''),
  (''goals'',
   ''Let's talk about your goals. What would you like to work on or review?'')]"

definition DEFAULT_VOICE :: string where "DEFAULT_VOICE = ''coral''"
definition AUDIO_FORMAT :: string where "AUDIO_FORMAT = ''pcm16''"
definition MAX_TOKENS :: int where "MAX_TOKENS = 300"
definition TEMPERATURE :: json where "TEMPERATURE = JFloat ''0.7''"

section \<open>Prompt selection\<close>

text \<open>
  \<^verbatim>\<open>table[k]\<close> raises \<^verbatim>\<open>KeyError\<close> on a missing key; \<^verbatim>\<open>table.get(k, default)\<close> hashes \<^verbatim>\<open>k\<close>
  first, which raises \<^verbatim>\<open>TypeError\<close> for a list or a dict, and only a \<^verbatim>\<open>str\<close> can be equal
  to one of the keys. Python evaluates the default before the call.
\<close>

definition subscript :: "(string \<times> string) list \<Rightarrow> string \<Rightarrow> exn + string" where
  "subscript table k =
     (case map_of table k of
        None \<Rightarrow> Inl (Exn OtherException ([CHR 0x27] @ k @ [CHR 0x27]))
      | Some v \<Rightarrow> Inr v)"

definition table_get :: "(string \<times> string) list \<Rightarrow> json \<Rightarrow> string \<Rightarrow> exn + string" where
  "table_get table k dflt =
     (case k of
        JArr vs \<Rightarrow> Inl (unhashable k)
      | JObj kvs \<Rightarrow> Inl (unhashable k)
      | JStr s \<Rightarrow> (case map_of table s of Some v \<Rightarrow> Inr v | None \<Rightarrow> Inr dflt)
      | _ \<Rightarrow> Inr dflt)"

definition get_session_prompt :: "json \<Rightarrow> bool \<Rightarrow> exn + string" where
  "get_session_prompt session_type is_voice =
     (let prompts = (if is_voice then VOICE_PROMPTS else BASE_PROMPTS)
      in case subscript prompts ''reflection'' of
           Inl e \<Rightarrow> Inl e
         | Inr dflt \<Rightarrow> table_get prompts session_type dflt)"

text \<open>
  \<^verbatim>\<open>start_session\<close>: the request body is any JSON value; the handler resets the agent and
  answers with the initial message of the session type.
\<close>

record agent =
  conversation_history :: "json list"
  current_session_type :: "json option"

definition start_session :: "json \<Rightarrow> agent \<Rightarrow> exn + (json \<times> agent)" where
  "start_session data a =
     (case data of
        JObj d \<Rightarrow>
          (let session_type = dict_get d ''type'' (JStr ''reflection'');
               a' = a\<lparr>conversation_history := [], current_session_type := Some session_type\<rparr>
           in case subscript INITIAL_MESSAGES ''reflection'' of
                Inl e \<Rightarrow> Inl e
              | Inr dflt \<Rightarrow>
                  (case table_get INITIAL_MESSAGES session_type dflt of
                     Inl e \<Rightarrow> Inl e
                   | Inr initial_message \<Rightarrow>
                       Inr (JObj [(''message'', JStr initial_message),
                                  (''session_type'', session_type)], a')))
      | _ \<Rightarrow> Inl (no_attribute_get data))"

text \<open>The \<^verbatim>\<open>session.update\<close> message that \<^verbatim>\<open>voice_websocket\<close> sends upstream.\<close>

definition session_config :: "string \<Rightarrow> json" where
  "session_config instructions =
     JObj [(''type'', JStr ''session.update''),
           (''session'', JObj [
              (''modalities'', JArr [JStr ''text'', JStr ''audio'']),
              (''instructions'', JStr instructions),
              (''voice'', JStr DEFAULT_VOICE),
              (''input_audio_format'', JStr AUDIO_FORMAT),
              (''output_audio_format'', JStr AUDIO_FORMAT),
              (''input_audio_transcription'', JObj [(''model'', JStr ''whisper-1'')]),
              (''temperature'', TEMPERATURE),
              (''max_response_output_tokens'', JInt MAX_TOKENS)])]"

section \<open>The database\<close>

text \<open>
  The table \<^verbatim>\<open>entries\<close>, in the order of its row ids. \<^verbatim>\<open>created_at\<close> is filled by the
  database (\<^verbatim>\<open>CURRENT_TIMESTAMP\<close>, a fixed-width text whose order is the order of time);
  it is a number of seconds here. A statement on the database returns or raises.
\<close>

record entry =
  entry_date :: string
  entry_type :: string
  entry_content :: string
  entry_ai_prompts :: string
  entry_created_at :: nat

record clock =
  today :: string
  now :: string
  current_timestamp :: nat

definition voice_type :: "string \<Rightarrow> string" where
  "voice_type session_type = ''voice_'' @ session_type"







section \<open>Saving a voice transcript\<close>

text \<open>
  A transcript fragment is the dict \<^verbatim>\<open>{"role": ..., "content": ..., "timestamp": ...}\<close> that
  the relay appends. Its content is whatever value the upstream message carried.
\<close>

record fragment =
  role :: string
  content :: json
  timestamp :: string

definition fragment_json :: "fragment \<Rightarrow> json" where
  "fragment_json f =
     JObj [(''role'', JStr (role f)), (''content'', content f), (''timestamp'', JStr (timestamp f))]"

definition transcript_json :: "fragment list \<Rightarrow> json" where
  "transcript_json transcript = JArr (map fragment_json transcript)"

text \<open>\<^verbatim>\<open>" ".join(xs)\<close> raises \<^verbatim>\<open>TypeError\<close> unless every item is a \<^verbatim>\<open>str\<close>.\<close>

fun str_items :: "json list \<Rightarrow> exn + string list" where
  "str_items [] = Inr []"
| "str_items (v # vs) =
     (case v of
        JStr s \<Rightarrow> (case str_items vs of Inl e \<Rightarrow> Inl e | Inr ss \<Rightarrow> Inr (s # ss))
      | _ \<Rightarrow> Inl (Exn TypeError (''sequence item: expected str instance, '' @ type_name v @ '' found'')))"

definition space_join :: "json list \<Rightarrow> exn + string" where
  "space_join xs = (case str_items xs of Inl e \<Rightarrow> Inl e | Inr ss \<Rightarrow> Inr (join '' '' ss))"

definition user_content :: "fragment list \<Rightarrow> json list" where
  "user_content transcript = map content (filter (\<lambda>item. role item = ''user'') transcript)"

definition ai_content :: "fragment list \<Rightarrow> json list" where
  "ai_content transcript = map content (filter (\<lambda>item. role item \<noteq> ''user'') transcript)"

text \<open>
  The whole body of \<^verbatim>\<open>save_voice_transcript\<close> stands in a \<^verbatim>\<open>try\<close> whose handler only
  prints: whatever raises, the function returns and the table is as it was.
\<close>

definition save_voice_transcript ::
  "io \<Rightarrow> clock \<Rightarrow> fragment list \<Rightarrow> json \<Rightarrow> entry list \<Rightarrow> entry list" where
  "save_voice_transcript db_io clk transcript session_type db =
     (if user_content transcript \<noteq> [] then
        (let full_transcript = json_dumps (transcript_json transcript)
         in case space_join (user_content transcript) of
              Inl e \<Rightarrow> db
            | Inr user_summary \<Rightarrow>
                (case db_io of
                   Raise e \<Rightarrow> db
                 | Ok \<Rightarrow>
                     db @ [\<lparr>entry_date = today clk,
                            entry_type = voice_type (py_str session_type),
                            entry_content = user_summary,
                            entry_ai_prompts = full_transcript,
                            entry_created_at = current_timestamp clk\<rparr>]))
      else db)"

section \<open>The voice relay\<close>

text \<open>
  A WebSocket message is a binary or a text frame. The session state is the local
  variables of \<^verbatim>\<open>voice_websocket\<close> that its two loops share; \<^verbatim>\<open>relay_alive\<close> says
  whether the task running \<^verbatim>\<open>relay_from_openai\<close> is still in its loop.
\<close>

datatype frame = Bytes string | Text string

record session =
  openai_ws :: bool
  conversation_transcript :: "fragment list"
  session_type :: json
  awaiting_response :: bool
  relay_alive :: bool

definition initial_session :: session where
  "initial_session =
     \<lparr>openai_ws = False, conversation_transcript = [], session_type = JStr ''reflection'',
      awaiting_response = False, relay_alive = False\<rparr>"

text \<open>
  What the bridge does on its two sockets, in order. The flag of a send says whether the
  call returned (\<^const>\<open>True\<close>) or raised.
\<close>

datatype action =
    ClientError string bool
  | ClientReady bool
  | ToClient frame bool
  | Connect bool
  | Configure string bool
  | AutoResponse bool
  | ToUpstream frame bool
  | CloseUpstream

definition error_message :: "string \<Rightarrow> string" where
  "error_message m = json_dumps (JObj [(''type'', JStr ''error''), (''message'', JStr m)])"

definition ready_message :: string where
  "ready_message =
     json_dumps (JObj [(''type'', JStr ''ready''), (''message'', JStr ''Voice session ready'')])"

definition response_create :: string where
  "response_create =
     json_dumps (JObj [(''type'', JStr ''response.create''),
                       (''response'', JObj [(''modalities'', JArr [JStr ''text'', JStr ''audio''])])])"

text \<open>The frame an action puts on the wire, and the socket it goes to.\<close>

datatype peer = Client | Upstream

fun wire :: "action \<Rightarrow> (peer \<times> frame) option" where
  "wire (ClientError m b) = Some (Client, Text (error_message m))"
| "wire (ClientReady b) = Some (Client, Text ready_message)"
| "wire (ToClient f b) = Some (Client, f)"
| "wire (Connect b) = None"
| "wire (Configure instructions b) = Some (Upstream, Text (json_dumps (session_config instructions)))"
| "wire (AutoResponse b) = Some (Upstream, Text response_create)"
| "wire (ToUpstream f b) = Some (Upstream, f)"
| "wire CloseUpstream = None"

subsection \<open>Upstream to client: one message of \<^verbatim>\<open>relay_from_openai\<close>\<close>

definition completion_events :: "json list" where
  "completion_events =
     [JStr ''response.completed'', JStr ''response.audio.done'', JStr ''response.output_audio.done'',
      JStr ''response.text.done'', JStr ''response.output_text.done'']"

record relay_io =
  relay_now :: string
  upstream_send :: io
  client_send :: io

definition append_fragment :: "string \<Rightarrow> json \<Rightarrow> string \<Rightarrow> session \<Rightarrow> session" where
  "append_fragment r c t s =
     s\<lparr>conversation_transcript :=
         conversation_transcript s @ [\<lparr>role = r, content = c, timestamp = t\<rparr>]\<rparr>"

text \<open>
  The result is the state, the actions of this message and whether the loop goes on. The
  parser \<^verbatim>\<open>json.loads\<close> is the parameter \<open>loads\<close>. A failed send of \<^verbatim>\<open>response.create\<close>
  is caught on the spot; any other exception leaves the loop and is caught around it.
\<close>

definition relay_from_openai ::
  "(string \<Rightarrow> exn + json) \<Rightarrow> relay_io \<Rightarrow> frame \<Rightarrow> session \<Rightarrow> session \<times> action list \<times> bool" where
  "relay_from_openai loads rio message s =
     (case message of
        Bytes b \<Rightarrow>
          (s, [ToClient (Bytes b) (succeeded (client_send rio))], succeeded (client_send rio))
      | Text m \<Rightarrow>
          (case loads m of
             Inl e \<Rightarrow>
               (s, [ToClient (Text m) (succeeded (client_send rio))], succeeded (client_send rio))
           | Inr data \<Rightarrow>
               (case data of
                  JObj d \<Rightarrow>
                    (let ty = dict_get d ''type'' JNull;
                         auto = (ty = JStr ''input_audio_buffer.committed'' \<and> \<not> awaiting_response s);
                         s1 = (if auto \<and> succeeded (upstream_send rio)
                               then s\<lparr>awaiting_response := True\<rparr> else s);
                         a1 = (if auto then [AutoResponse (succeeded (upstream_send rio))] else []);
                         s2 = (if ty \<in> set completion_events
                               then s1\<lparr>awaiting_response := False\<rparr> else s1);
                         s3 = (if ty = JStr ''conversation.item.input_audio_transcription.completed''
                               then append_fragment ''user'' (dict_get d ''transcript'' (JStr ''''))
                                      (relay_now rio) s2
                               else if ty = JStr ''response.text.done''
                               then append_fragment ''assistant'' (dict_get d ''text'' (JStr ''''))
                                      (relay_now rio) s2
                               else s2)
                     in (s3, a1 @ [ToClient (Text m) (succeeded (client_send rio))],
                         succeeded (client_send rio)))
                | _ \<Rightarrow> (s, [], False))))"

subsection \<open>Client to upstream: one turn of the loop of \<^verbatim>\<open>voice_websocket\<close>\<close>

text \<open>
  \<^verbatim>\<open>websocket.receive()\<close> returns a disconnect message, a message with bytes, a message
  with text or some other message, or it raises. \<^verbatim>\<open>WebSocketDisconnect\<close> ends the loop
  quietly; any other exception leaves it.
\<close>

datatype client_event =
    RecvDisconnect
  | RecvBytes string
  | RecvText string
  | RecvOther
  | RecvRaises exn

datatype loop_status = Continue | Break | Raised exn

definition after_io :: "io \<Rightarrow> loop_status" where
  "after_io r =
     (case r of
        Ok \<Rightarrow> Continue
      | Raise e \<Rightarrow> (if exn_kind_of e = WebSocketDisconnect then Break else Raised e))"

definition client_message ::
  "(string \<Rightarrow> exn + json) \<Rightarrow> io \<Rightarrow> client_event \<Rightarrow> session \<Rightarrow> session \<times> action list \<times> loop_status" where
  "client_message loads up_send ev s =
     (case ev of
        RecvDisconnect \<Rightarrow> (s, [], Break)
      | RecvBytes audio_data \<Rightarrow>
          (s, [ToUpstream (Bytes audio_data) (succeeded up_send)], after_io up_send)
      | RecvText text_data \<Rightarrow>
          (let s' = (case loads text_data of
                       Inr (JObj payload) \<Rightarrow>
                         (if dict_get payload ''type'' JNull = JStr ''response.create''
                          then s\<lparr>awaiting_response := True\<rparr> else s)
                     | _ \<Rightarrow> s)
           in (s', [ToUpstream (Text text_data) (succeeded up_send)], after_io up_send))
      | RecvOther \<Rightarrow> (s, [], Continue)
      | RecvRaises e \<Rightarrow> (s, [], after_io (Raise e)))"

subsection \<open>The two loops, interleaved\<close>

text \<open>
  Both loops run on one event loop, so the session is a sequence of events, each handled
  by the loop it belongs to: a frame from upstream, the end of the upstream stream, or a
  turn of the client loop. A frame from upstream that comes after the relay has left its
  loop is read by nobody. When the events run out the session is still open.
\<close>

datatype event =
    FromUpstream frame relay_io
  | UpstreamEnds
  | FromClient client_event io

datatype outcome = Pending | Returned | Failed exn

fun forward ::
  "(string \<Rightarrow> exn + json) \<Rightarrow> event list \<Rightarrow> session \<Rightarrow> session \<times> action list \<times> outcome" where
  "forward loads [] s = (s, [], Pending)"
| "forward loads (FromUpstream message rio # evs) s =
     (if relay_alive s then
        (case relay_from_openai loads rio message s of
           (s', acts, alive) \<Rightarrow>
             (case forward loads evs (s'\<lparr>relay_alive := alive\<rparr>) of
                (s'', acts', out) \<Rightarrow> (s'', acts @ acts', out)))
      else forward loads evs s)"
| "forward loads (UpstreamEnds # evs) s = forward loads evs (s\<lparr>relay_alive := False\<rparr>)"
| "forward loads (FromClient ev up_send # evs) s =
     (case client_message loads up_send ev s of
        (s', acts, Continue) \<Rightarrow>
          (case forward loads evs s' of (s'', acts', out) \<Rightarrow> (s'', acts @ acts', out))
      | (s', acts, Break) \<Rightarrow> (s'\<lparr>relay_alive := False\<rparr>, acts, Returned)
      | (s', acts, Raised e) \<Rightarrow> (s'\<lparr>relay_alive := False\<rparr>, acts, Failed e))"

subsection \<open>\<^verbatim>\<open>voice_websocket\<close>\<close>

record environment =
  api_key :: "string option"
  key_error_send :: io
  config_receive :: "exn + string"
  connect :: io
  configure_send :: io
  ready_send :: io
  events :: "event list"
  error_send :: io
  storage :: io
  final_clock :: clock

text \<open>The body of the outer \<^verbatim>\<open>try\<close>: set-up, then the two loops.\<close>

definition session_body ::
  "(string \<Rightarrow> exn + json) \<Rightarrow> environment \<Rightarrow> session \<times> action list \<times> outcome" where
  "session_body loads env =
     (let s0 = initial_session in
      if api_key env = None \<or> api_key env = Some [] then
        (s0, [ClientError ''OpenAI API key not configured'' (succeeded (key_error_send env))],
         (case key_error_send env of Ok \<Rightarrow> Returned | Raise e \<Rightarrow> Failed e))
      else
        (case config_receive env of
           Inl e \<Rightarrow> (s0, [], Failed e)
         | Inr config_data \<Rightarrow>
             (case loads config_data of
                Inl e \<Rightarrow> (s0, [], Failed e)
              | Inr config \<Rightarrow>
                  (case config of
                     JObj d \<Rightarrow>
                       (let s1 = s0\<lparr>session_type := dict_get d ''session_type'' (JStr ''reflection'')\<rparr>
                        in case connect env of
                             Raise e \<Rightarrow> (s1, [Connect False], Failed e)
                           | Ok \<Rightarrow>
                               (let s2 = s1\<lparr>openai_ws := True\<rparr>
                                in case get_session_prompt (session_type s2) True of
                                     Inl e \<Rightarrow> (s2, [Connect True], Failed e)
                                   | Inr instructions \<Rightarrow>
                                       (case configure_send env of
                                          Raise e \<Rightarrow>
                                            (s2, [Connect True, Configure instructions False], Failed e)
                                        | Ok \<Rightarrow>
                                            (case ready_send env of
                                               Raise e \<Rightarrow>
                                                 (s2, [Connect True, Configure instructions True,
                                                       ClientReady False], Failed e)
                                             | Ok \<Rightarrow>
                                                 (case forward loads (events env)
                                                         (s2\<lparr>relay_alive := True\<rparr>) of
                                                    (s3, acts, out) \<Rightarrow>
                                                      (s3, [Connect True, Configure instructions True,
                                                            ClientReady True] @ acts, out))))))
                   | _ \<Rightarrow> (s0, [], Failed (no_attribute_get config))))))"

text \<open>
  The handler of the outer \<^verbatim>\<open>try\<close> answers any exception with an error message to the
  client; the \<^verbatim>\<open>finally\<close> block saves the transcript and closes the upstream socket. A
  session whose events ran out has reached neither.
\<close>

record run =
  trace :: "action list"
  database :: "entry list"
  finished :: bool
  final :: session

definition voice_websocket ::
  "(string \<Rightarrow> exn + json) \<Rightarrow> environment \<Rightarrow> entry list \<Rightarrow> run" where
  "voice_websocket loads env db =
     (case session_body loads env of
        (s, acts, Pending) \<Rightarrow> \<lparr>trace = acts, database = db, finished = False, final = s\<rparr>
      | (s, acts, out) \<Rightarrow>
          (let handler = (case out of
                            Failed e \<Rightarrow> [ClientError (exn_text e) (succeeded (error_send env))]
                          | _ \<Rightarrow> []);
               db' = (if conversation_transcript s \<noteq> []
                      then save_voice_transcript (storage env) (final_clock env)
                             (conversation_transcript s) (session_type s) db
                      else db);
               closing = (if openai_ws s then [CloseUpstream] else [])
           in \<lparr>trace = acts @ handler @ closing, database = db', finished = True, final = s\<rparr>))"

section \<open>A model of \<^verbatim>\<open>json.loads\<close>\<close>

text \<open>
  The decoder of the standard library, as far as the values above go: white space,
  \<^verbatim>\<open>null\<close>, \<^verbatim>\<open>true\<close>, \<^verbatim>\<open>false\<close>, \<^verbatim>\<open>NaN\<close>, \<^verbatim>\<open>Infinity\<close>, integers, strings with their
  escapes, arrays and objects. \<^const>\<open>None\<close> stands for an exception. Two kinds of text
  that the library accepts are left out and give \<^const>\<open>None\<close> as well: a number with a
  fraction or an exponent, and an escape \<^verbatim>\<open>\uXXXX\<close> of a code point above 255. The
  recursion is bounded by the length of the text.
\<close>

definition is_ws :: "char \<Rightarrow> bool" where
  "is_ws c = (c = CHR '' '' \<or> c = CHR 0x09 \<or> c = CHR 0x0A \<or> c = CHR 0x0D)"

definition skip_ws :: "string \<Rightarrow> string" where
  "skip_ws s = dropWhile is_ws s"

definition is_digit :: "char \<Rightarrow> bool" where
  "is_digit c = (48 \<le> (of_char c :: nat) \<and> (of_char c :: nat) \<le> 57)"

definition digit_val :: "char \<Rightarrow> nat" where
  "digit_val c = of_char c - 48"

definition hex_val :: "char \<Rightarrow> nat option" where
  "hex_val c =
     (let n = (of_char c :: nat) in
      if 48 \<le> n \<and> n \<le> 57 then Some (n - 48)
      else if 97 \<le> n \<and> n \<le> 102 then Some (n - 87)
      else if 65 \<le> n \<and> n \<le> 70 then Some (n - 55)
      else None)"

fun scan_digits :: "nat \<Rightarrow> string \<Rightarrow> nat \<times> string" where
  "scan_digits acc [] = (acc, [])"
| "scan_digits acc (c # cs) =
     (if is_digit c then scan_digits (10 * acc + digit_val c) cs else (acc, c # cs))"

definition float_tail :: "string \<Rightarrow> bool" where
  "float_tail s =
     (case s of
        c # d # r \<Rightarrow>
          (if c = CHR ''.'' then is_digit d
           else if c = CHR ''e'' \<or> c = CHR ''E'' then
             (is_digit d \<or> ((d = CHR ''+'' \<or> d = CHR ''-'') \<and> (case r of x # r' \<Rightarrow> is_digit x | [] \<Rightarrow> False)))
           else False)
      | _ \<Rightarrow> False)"

definition scan_number :: "string \<Rightarrow> (json \<times> string) option" where
  "scan_number s =
     (let negative = (case s of c # r \<Rightarrow> c = CHR ''-'' | [] \<Rightarrow> False);
          r = (if negative then tl s else s)
      in case r of
           [] \<Rightarrow> None
         | c # cs \<Rightarrow>
             (if \<not> is_digit c then None
              else (case (if c = CHR ''0'' then (0, cs) else scan_digits 0 r) of
                      (n, rest) \<Rightarrow>
                        (if float_tail rest then None
                         else Some (JInt (if negative then - int n else int n), rest)))))"

definition unescape :: "char \<Rightarrow> char option" where
  "unescape e =
     (if e = CHR 0x22 then Some (CHR 0x22)
      else if e = CHR 0x5C then Some (CHR 0x5C)
      else if e = CHR ''/'' then Some (CHR ''/'')
      else if e = CHR ''b'' then Some (CHR 0x08)
      else if e = CHR ''f'' then Some (CHR 0x0C)
      else if e = CHR ''n'' then Some (CHR 0x0A)
      else if e = CHR ''r'' then Some (CHR 0x0D)
      else if e = CHR ''t'' then Some (CHR 0x09)
      else None)"

definition decode_uXXXX :: "char \<Rightarrow> char \<Rightarrow> char \<Rightarrow> char \<Rightarrow> char option" where
  "decode_uXXXX a b c d =
     (case (hex_val a, hex_val b, hex_val c, hex_val d) of
        (Some w, Some x, Some y, Some z) \<Rightarrow>
          (if w = 0 \<and> x = 0 then Some (char_of (16 * y + z)) else None)
      | _ \<Rightarrow> None)"

text \<open>The characters after the opening quote, up to the closing one.\<close>

fun scanstring :: "string \<Rightarrow> (string \<times> string) option" where
  "scanstring [] = None"
| "scanstring (c # cs) =
     (if c = CHR 0x22 then Some ([], cs)
      else if c = CHR 0x5C then
        (case cs of
           [] \<Rightarrow> None
         | e # es \<Rightarrow>
             (if e = CHR ''u'' then
                (case es of
                   a # b # c' # d # rest \<Rightarrow>
                     (case decode_uXXXX a b c' d of
                        None \<Rightarrow> None
                      | Some x \<Rightarrow>
                          (case scanstring rest of
                             None \<Rightarrow> None
                           | Some (str, r) \<Rightarrow> Some (x # str, r)))
                 | _ \<Rightarrow> None)
              else
                (case unescape e of
                   None \<Rightarrow> None
                 | Some x \<Rightarrow>
                     (case scanstring es of
                        None \<Rightarrow> None
                      | Some (str, r) \<Rightarrow> Some (x # str, r)))))
      else if (of_char c :: nat) < 32 then None
      else (case scanstring cs of
              None \<Rightarrow> None
            | Some (str, r) \<Rightarrow> Some (c # str, r)))"

text \<open>\<^verbatim>\<open>dict(pairs)\<close>: a repeated key keeps its first place and takes the last value.\<close>

definition dict_of_pairs :: "(string \<times> json) list \<Rightarrow> (string \<times> json) list" where
  "dict_of_pairs pairs = foldl (\<lambda>d (k, v). AList.update k v d) [] pairs"

definition starts_with :: "string \<Rightarrow> string \<Rightarrow> bool" where
  "starts_with p s = (take (length p) s = p)"

fun scan_once :: "nat \<Rightarrow> string \<Rightarrow> (json \<times> string) option"
  and scan_array :: "nat \<Rightarrow> string \<Rightarrow> (json list \<times> string) option"
  and scan_object :: "nat \<Rightarrow> string \<Rightarrow> ((string \<times> json) list \<times> string) option"
where
  "scan_once 0 s = None"
| "scan_once (Suc n) s =
     (case s of
        [] \<Rightarrow> None
      | c # cs \<Rightarrow>
          (if c = CHR 0x22 then
             (case scanstring cs of None \<Rightarrow> None | Some (str, r) \<Rightarrow> Some (JStr str, r))
           else if c = CHR ''{'' then
             (case skip_ws cs of
                [] \<Rightarrow> None
              | x # r \<Rightarrow>
                  (if x = CHR ''}'' then Some (JObj [], r)
                   else (case scan_object n (x # r) of
                           None \<Rightarrow> None
                         | Some (pairs, r') \<Rightarrow> Some (JObj (dict_of_pairs pairs), r'))))
           else if c = CHR ''['' then
             (case skip_ws cs of
                [] \<Rightarrow> None
              | x # r \<Rightarrow>
                  (if x = CHR '']'' then Some (JArr [], r)
                   else (case scan_array n (x # r) of
                           None \<Rightarrow> None
                         | Some (vs, r') \<Rightarrow> Some (JArr vs, r'))))
           else if starts_with ''null'' s then Some (JNull, drop 4 s)
           else if starts_with ''true'' s then Some (JBool True, drop 4 s)
           else if starts_with ''false'' s then Some (JBool False, drop 5 s)
           else if is_digit c \<or> (c = CHR ''-'' \<and> (case cs of d # r \<Rightarrow> is_digit d | [] \<Rightarrow> False))
             then scan_number s
           else if starts_with ''NaN'' s then Some (JFloat ''nan'', drop 3 s)
           else if starts_with ''Infinity'' s then Some (JFloat ''inf'', drop 8 s)
           else if starts_with ''-Infinity'' s then Some (JFloat ''-inf'', drop 9 s)
           else None))"
| "scan_array 0 s = None"
| "scan_array (Suc n) s =
     (case scan_once n s of
        None \<Rightarrow> None
      | Some (v, r) \<Rightarrow>
          (case skip_ws r of
             [] \<Rightarrow> None
           | c # r' \<Rightarrow>
               (if c = CHR '']'' then Some ([v], r')
                else if c = CHR '','' then
                  (case scan_array n (skip_ws r') of
                     None \<Rightarrow> None
                   | Some (vs, r'') \<Rightarrow> Some (v # vs, r''))
                else None)))"
| "scan_object 0 s = None"
| "scan_object (Suc n) s =
     (case s of
        [] \<Rightarrow> None
      | q # s' \<Rightarrow>
          (if q \<noteq> CHR 0x22 then None
           else (case scanstring s' of
                   None \<Rightarrow> None
                 | Some (key, r) \<Rightarrow>
                     (case skip_ws r of
                        [] \<Rightarrow> None
                      | c # r1 \<Rightarrow>
                          (if c \<noteq> CHR '':'' then None
                           else (case scan_once n (skip_ws r1) of
                                   None \<Rightarrow> None
                                 | Some (v, r2) \<Rightarrow>
                                     (case skip_ws r2 of
                                        [] \<Rightarrow> None
                                      | c' # r3 \<Rightarrow>
                                          (if c' = CHR ''}'' then Some ([(key, v)], r3)
                                           else if c' = CHR '','' then
                                             (case scan_object n (skip_ws r3) of
                                                None \<Rightarrow> None
                                              | Some (pairs, r4) \<Rightarrow> Some ((key, v) # pairs, r4))
                                           else None))))))))"

definition json_loads :: "string \<Rightarrow> json option" where
  "json_loads s =
     (case scan_once (Suc (length s)) (skip_ws s) of
        None \<Rightarrow> None
      | Some (v, r) \<Rightarrow> (if skip_ws r = [] then Some v else None))"

text \<open>The parser as the relay calls it: an exception or a value.\<close>

definition python_loads :: "string \<Rightarrow> exn + json" where
  "python_loads s =
     (case json_loads s of
        None \<Rightarrow> Inl (Exn JSONDecodeError ''Expecting value'')
      | Some v \<Rightarrow> Inr v)"

section \<open>Prompt selection falls back to reflection\<close>

lemma map_of_unknown:
  assumes "s \<notin> {''reflection'', ''planning'', ''notes'', ''goals''}"
  shows "map_of VOICE_PROMPTS s = None"
    and "map_of BASE_PROMPTS s = None"
    and "map_of INITIAL_MESSAGES s = None"
  using assms by (simp_all add: VOICE_PROMPTS_def BASE_PROMPTS_def INITIAL_MESSAGES_def)

lemma get_session_prompt_unknown:
  assumes "s \<notin> {''reflection'', ''planning'', ''notes'', ''goals''}"
  shows "get_session_prompt (JStr s) True = Inr (the (map_of VOICE_PROMPTS ''reflection''))"
    and "get_session_prompt (JStr s) False = Inr (the (map_of BASE_PROMPTS ''reflection''))"
  using map_of_unknown[OF assms]
  by (simp_all add: get_session_prompt_def subscript_def table_get_def VOICE_PROMPTS_def
        BASE_PROMPTS_def)

lemma configure_in_trace:
  assumes "api_key env = Some k" and "k \<noteq> []" and "config_receive env = Inr c"
    and "parse c = Inr (JObj d)" and "connect env = Ok"
    and "get_session_prompt (dict_get d ''session_type'' (JStr ''reflection'')) True = Inr p"
  shows "Configure p (succeeded (configure_send env)) \<in> set (trace (voice_websocket parse env db))"
  using assms
  by (auto simp add: voice_websocket_def session_body_def Let_def initial_session_def
        split: io.splits prod.splits outcome.splits sum.splits)

text \<open>
  C9. For a session type that is a string outside reflection, planning, notes and goals,
  \<^const>\<open>get_session_prompt\<close> returns the reflection prompt of the table it reads (text
  chat or voice), the \<^verbatim>\<open>session.update\<close> that \<^const>\<open>voice_websocket\<close> sends once it is
  connected carries the reflection voice prompt, and \<^const>\<open>start_session\<close> answers with
  the reflection initial message. None of them raises.
\<close>

theorem unknown_session_type_uses_reflection:
  assumes "s \<notin> {''reflection'', ''planning'', ''notes'', ''goals''}"
  shows "(\<exists>p. map_of BASE_PROMPTS ''reflection'' = Some p \<and>
              get_session_prompt (JStr s) False = Inr p) \<and>
         (\<exists>p. map_of VOICE_PROMPTS ''reflection'' = Some p \<and>
              get_session_prompt (JStr s) True = Inr p \<and>
              (api_key env = Some k \<and> k \<noteq> [] \<and> config_receive env = Inr c \<and>
               parse c = Inr (JObj d) \<and>
               dict_get d ''session_type'' (JStr ''reflection'') = JStr s \<and>
               connect env = Ok \<longrightarrow>
               Configure p (succeeded (configure_send env))
                 \<in> set (trace (voice_websocket parse env db)))) \<and>
         (\<exists>m. map_of INITIAL_MESSAGES ''reflection'' = Some m \<and>
              (dict_get body ''type'' (JStr ''reflection'') = JStr s \<longrightarrow>
               start_session (JObj body) a =
                 Inr (JObj [(''message'', JStr m), (''session_type'', JStr s)],
                      a\<lparr>conversation_history := [], current_session_type := Some (JStr s)\<rparr>)))"
proof (intro conjI)
  have "map_of BASE_PROMPTS ''reflection'' = Some (the (map_of BASE_PROMPTS ''reflection''))"
    by (simp add: BASE_PROMPTS_def)
  then show "\<exists>p. map_of BASE_PROMPTS ''reflection'' = Some p \<and>
                 get_session_prompt (JStr s) False = Inr p"
    using get_session_prompt_unknown(2)[OF assms] by blast
next
  let ?p = "the (map_of VOICE_PROMPTS ''reflection'')"
  have q: "map_of VOICE_PROMPTS ''reflection'' = Some ?p"
    by (simp add: VOICE_PROMPTS_def)
  have p: "get_session_prompt (JStr s) True = Inr ?p"
    by (rule get_session_prompt_unknown(1)[OF assms])
  have r: "Configure ?p (succeeded (configure_send env)) \<in> set (trace (voice_websocket parse env db))"
    if "api_key env = Some k" "k \<noteq> []" "config_receive env = Inr c" "parse c = Inr (JObj d)"
       "dict_get d ''session_type'' (JStr ''reflection'') = JStr s" "connect env = Ok"
    using configure_in_trace[of env k c parse d ?p db] that p by simp
  show "\<exists>p. map_of VOICE_PROMPTS ''reflection'' = Some p \<and>
            get_session_prompt (JStr s) True = Inr p \<and>
            (api_key env = Some k \<and> k \<noteq> [] \<and> config_receive env = Inr c \<and>
             parse c = Inr (JObj d) \<and>
             dict_get d ''session_type'' (JStr ''reflection'') = JStr s \<and>
             connect env = Ok \<longrightarrow>
             Configure p (succeeded (configure_send env))
               \<in> set (trace (voice_websocket parse env db)))"
    using p q r by blast
next
  show "\<exists>m. map_of INITIAL_MESSAGES ''reflection'' = Some m \<and>
            (dict_get body ''type'' (JStr ''reflection'') = JStr s \<longrightarrow>
             start_session (JObj body) a =
               Inr (JObj [(''message'', JStr m), (''session_type'', JStr s)],
                    a\<lparr>conversation_history := [], current_session_type := Some (JStr s)\<rparr>))"
    using map_of_unknown(3)[OF assms]
    by (simp add: start_session_def subscript_def table_get_def INITIAL_MESSAGES_def Let_def)
qed

subsection \<open>An example session\<close>

text \<open>
  A client opens a session of a type outside the four known ones, sends audio and leaves;
  upstream commits the audio, transcribes two utterances and answers once.
\<close>

definition example_io :: relay_io where
  "example_io = \<lparr>relay_now = ''2026-01-05T08:30:00'', upstream_send = Ok, client_send = Ok\<rparr>"

definition example_config :: string where
  \<open>example_config = ''{"session_type": "journal"}''\<close>

definition committed_message :: string where
  \<open>committed_message = ''{"type": "input_audio_buffer.committed"}''\<close>

definition user_said_A :: string where
  \<open>user_said_A =
     ''{"type": "conversation.item.input_audio_transcription.completed", "transcript": "A"}''\<close>

definition assistant_said_B :: string where
  \<open>assistant_said_B = ''{"type": "response.text.done", "text": "B"}''\<close>

definition user_said_C :: string where
  \<open>user_said_C =
     ''{"type": "conversation.item.input_audio_transcription.completed", "transcript": "C"}''\<close>

definition example_events :: "event list" where
  "example_events =
     [FromClient (RecvBytes ''audio'') Ok,
      FromUpstream (Text committed_message) example_io,
      FromUpstream (Text user_said_A) example_io,
      FromUpstream (Text assistant_said_B) example_io,
      FromUpstream (Text user_said_C) example_io,
      FromClient RecvDisconnect Ok]"

definition example_clock :: clock where
  "example_clock =
     \<lparr>today = ''2026-01-05'', now = ''2026-01-05T08:31:00'', current_timestamp = 100\<rparr>"

definition example_environment :: "event list \<Rightarrow> environment" where
  "example_environment evs =
     \<lparr>api_key = Some ''sk-test'', key_error_send = Ok, config_receive = Inr example_config,
      connect = Ok, configure_send = Ok, ready_send = Ok, events = evs, error_send = Ok,
      storage = Ok, final_clock = example_clock\<rparr>"

lemma example_config_parsed:
  "python_loads example_config = Inr (JObj [(''session_type'', JStr ''journal'')])"
  by code_simp

lemma example_environment_simps:
  "api_key (example_environment evs) = Some ''sk-test''"
  "key_error_send (example_environment evs) = Ok"
  "config_receive (example_environment evs) = Inr example_config"
  "connect (example_environment evs) = Ok"
  "configure_send (example_environment evs) = Ok"
  "ready_send (example_environment evs) = Ok"
  "events (example_environment evs) = evs"
  "error_send (example_environment evs) = Ok"
  "storage (example_environment evs) = Ok"
  "final_clock (example_environment evs) = example_clock"
  by (simp_all add: example_environment_def)

theorem unknown_session_type_uses_reflection_witness:
  "''journal'' \<notin> {''reflection'', ''planning'', ''notes'', ''goals''} \<and>
   (\<exists>p. map_of BASE_PROMPTS ''reflection'' = Some p \<and>
        get_session_prompt (JStr ''journal'') False = Inr p) \<and>
   (\<exists>p. map_of VOICE_PROMPTS ''reflection'' = Some p \<and>
        get_session_prompt (JStr ''journal'') True = Inr p \<and>
        Configure p True
          \<in> set (trace (voice_websocket python_loads (example_environment example_events) []))) \<and>
   (\<exists>m. map_of INITIAL_MESSAGES ''reflection'' = Some m \<and>
        start_session (JObj [(''type'', JStr ''journal'')])
            \<lparr>conversation_history = [JStr ''earlier''], current_session_type = None\<rparr> =
          Inr (JObj [(''message'', JStr m), (''session_type'', JStr ''journal'')],
               \<lparr>conversation_history = [], current_session_type = Some (JStr ''journal'')\<rparr>))"
proof -
  have h: "''journal'' \<notin> {''reflection'', ''planning'', ''notes'', ''goals''}"
    by simp
  have d: "dict_get [(''session_type'', JStr ''journal'')] ''session_type'' (JStr ''reflection'')
             = JStr ''journal''"
       "dict_get [(''type'', JStr ''journal'')] ''type'' (JStr ''reflection'') = JStr ''journal''"
    by (simp_all add: dict_get_def)
  show ?thesis
    using h d example_config_parsed
      unknown_session_type_uses_reflection[OF h,
        of "example_environment example_events" "''sk-test''" example_config python_loads
           "[(''session_type'', JStr ''journal'')]" "[]" "[(''type'', JStr ''journal'')]"
           "\<lparr>conversation_history = [JStr ''earlier''], current_session_type = None\<rparr>"]
    by (simp add: example_environment_simps)
qed

section \<open>The awaiting-response flag\<close>

lemma relay_from_openai_object:
  assumes "parse m = Inr (JObj d)"
  shows "relay_from_openai parse rio (Text m) s =
     (let ty = dict_get d ''type'' JNull;
          auto = (ty = JStr ''input_audio_buffer.committed'' \<and> \<not> awaiting_response s);
          s1 = (if auto \<and> succeeded (upstream_send rio)
                then s\<lparr>awaiting_response := True\<rparr> else s);
          a1 = (if auto then [AutoResponse (succeeded (upstream_send rio))] else []);
          s2 = (if ty \<in> set completion_events
                then s1\<lparr>awaiting_response := False\<rparr> else s1);
          s3 = (if ty = JStr ''conversation.item.input_audio_transcription.completed''
                then append_fragment ''user'' (dict_get d ''transcript'' (JStr ''''))
                       (relay_now rio) s2
                else if ty = JStr ''response.text.done''
                then append_fragment ''assistant'' (dict_get d ''text'' (JStr ''''))
                       (relay_now rio) s2
                else s2)
      in (s3, a1 @ [ToClient (Text m) (succeeded (client_send rio))],
          succeeded (client_send rio)))"
  using assms by (simp add: relay_from_openai_def)

text \<open>The state of a session whose set-up has just ended, and three upstream messages.\<close>

definition ready_session :: session where
  "ready_session =
     \<lparr>openai_ws = True, conversation_transcript = [], session_type = JStr ''journal'',
      awaiting_response = False, relay_alive = True\<rparr>"

definition audio_done_message :: string where
  \<open>audio_done_message = ''{"type": "response.audio.done", "response_id": "resp_1"}''\<close>

definition truncated_message :: string where
  \<open>truncated_message = ''{"type": "response.audio.del''\<close>

definition closed_io :: relay_io where
  "closed_io =
     \<lparr>relay_now = ''2026-01-05T08:30:00'',
      upstream_send = Raise (Exn ConnectionClosed ''no close frame received or sent''),
      client_send = Ok\<rparr>"

lemma committed_message_parsed:
  "python_loads committed_message = Inr (JObj [(''type'', JStr ''input_audio_buffer.committed'')])"
  by code_simp

lemma audio_done_message_parsed:
  "python_loads audio_done_message =
     Inr (JObj [(''type'', JStr ''response.audio.done''), (''response_id'', JStr ''resp_1'')])"
  by code_simp

lemma truncated_message_parsed:
  "python_loads truncated_message = Inl (Exn JSONDecodeError ''Expecting value'')"
  by code_simp

text \<open>
  C1, as the code has it. When \<^verbatim>\<open>input_audio_buffer.committed\<close> arrives and the flag is
  false, the relay sends \<^verbatim>\<open>response.create\<close> upstream once, before it forwards the
  message; the flag becomes true if that send returns and stays false if it raises. When
  the flag is true the message is only forwarded, and the flag stays true.
\<close>

theorem committed_requests_response:
  assumes "parse m = Inr (JObj d)"
    and "dict_get d ''type'' JNull = JStr ''input_audio_buffer.committed''"
  shows "relay_from_openai parse rio (Text m) s =
     (if awaiting_response s then
        (s, [ToClient (Text m) (succeeded (client_send rio))], succeeded (client_send rio))
      else
        (s\<lparr>awaiting_response := succeeded (upstream_send rio)\<rparr>,
         [AutoResponse (succeeded (upstream_send rio)),
          ToClient (Text m) (succeeded (client_send rio))],
         succeeded (client_send rio)))"
  using assms
  by (cases "upstream_send rio")
     (simp_all add: relay_from_openai_object Let_def completion_events_def)

theorem committed_requests_response_witness:
  "python_loads committed_message = Inr (JObj [(''type'', JStr ''input_audio_buffer.committed'')]) \<and>
   dict_get [(''type'', JStr ''input_audio_buffer.committed'')] ''type'' JNull
     = JStr ''input_audio_buffer.committed'' \<and>
   relay_from_openai python_loads example_io (Text committed_message) ready_session =
     (ready_session\<lparr>awaiting_response := True\<rparr>,
      [AutoResponse True, ToClient (Text committed_message) True], True) \<and>
   relay_from_openai python_loads example_io (Text committed_message)
       (ready_session\<lparr>awaiting_response := True\<rparr>) =
     (ready_session\<lparr>awaiting_response := True\<rparr>, [ToClient (Text committed_message) True], True) \<and>
   relay_from_openai python_loads closed_io (Text committed_message) ready_session =
     (ready_session, [AutoResponse False, ToClient (Text committed_message) True], True)"
proof -
  have d: "dict_get [(''type'', JStr ''input_audio_buffer.committed'')] ''type'' JNull
             = JStr ''input_audio_buffer.committed''"
    by (simp add: dict_get_def)
  note t = committed_requests_response[of python_loads committed_message
      "[(''type'', JStr ''input_audio_buffer.committed'')]", OF committed_message_parsed d]
  show ?thesis
    using committed_message_parsed d t[of example_io ready_session]
      t[of example_io "ready_session\<lparr>awaiting_response := True\<rparr>"] t[of closed_io ready_session]
    by (simp add: example_io_def closed_io_def ready_session_def)
qed

text \<open>
  The claim as the specification words it fails where the send of \<^verbatim>\<open>response.create\<close>
  raises: the flag was false, the message is \<^verbatim>\<open>input_audio_buffer.committed\<close>, and the
  flag is false afterwards.
\<close>

theorem committed_send_raises_flag_stays_false:
  "\<not> awaiting_response ready_session \<and>
   \<not> awaiting_response
       (fst (relay_from_openai python_loads closed_io (Text committed_message) ready_session)) \<and>
   fst (snd (relay_from_openai python_loads closed_io (Text committed_message) ready_session)) =
     [AutoResponse False, ToClient (Text committed_message) True]"
  by code_simp

text \<open>
  C2. A text message from upstream whose type is one of the five completion events leaves
  the flag false, whatever the state before it: however the flag became true.
\<close>

theorem completion_clears_flag:
  assumes "parse m = Inr (JObj d)"
    and "dict_get d ''type'' JNull \<in> set completion_events"
  shows "\<not> awaiting_response (fst (relay_from_openai parse rio (Text m) s))"
  using assms
  by (auto simp add: relay_from_openai_object Let_def append_fragment_def completion_events_def)

text \<open>
  The flag set by the relay after a commit, and the flag set by the client's own
  \<^verbatim>\<open>response.create\<close>: \<^verbatim>\<open>response.audio.done\<close> clears both.
\<close>

definition client_response_create :: string where
  \<open>client_response_create = ''{"type": "response.create"}''\<close>

theorem completion_clears_flag_witness:
  "python_loads audio_done_message =
     Inr (JObj [(''type'', JStr ''response.audio.done''), (''response_id'', JStr ''resp_1'')]) \<and>
   dict_get [(''type'', JStr ''response.audio.done''), (''response_id'', JStr ''resp_1'')] ''type'' JNull
     \<in> set completion_events \<and>
   awaiting_response
     (fst (relay_from_openai python_loads example_io (Text committed_message) ready_session)) \<and>
   \<not> awaiting_response
       (fst (relay_from_openai python_loads example_io (Text audio_done_message)
          (fst (relay_from_openai python_loads example_io (Text committed_message) ready_session)))) \<and>
   awaiting_response
     (fst (client_message python_loads Ok (RecvText client_response_create) ready_session)) \<and>
   \<not> awaiting_response
       (fst (relay_from_openai python_loads example_io (Text audio_done_message)
          (fst (client_message python_loads Ok (RecvText client_response_create) ready_session))))"
proof -
  have d: "dict_get [(''type'', JStr ''response.audio.done''), (''response_id'', JStr ''resp_1'')]
             ''type'' JNull \<in> set completion_events"
    by (simp add: dict_get_def completion_events_def)
  note t = completion_clears_flag[of python_loads audio_done_message
      "[(''type'', JStr ''response.audio.done''), (''response_id'', JStr ''resp_1'')]",
      OF audio_done_message_parsed d]
  have a: "awaiting_response
     (fst (relay_from_openai python_loads example_io (Text committed_message) ready_session))"
    by code_simp
  have b: "awaiting_response
     (fst (client_message python_loads Ok (RecvText client_response_create) ready_session))"
    by code_simp
  show ?thesis
    using audio_done_message_parsed d a b
      t[of example_io
          "fst (relay_from_openai python_loads example_io (Text committed_message) ready_session)"]
      t[of example_io
          "fst (client_message python_loads Ok (RecvText client_response_create) ready_session)"]
    by simp
qed

section \<open>Text from upstream that is not JSON\<close>

text \<open>
  C5. When \<^verbatim>\<open>json.loads\<close> raises on a text message from upstream, the relay sends the
  client that very text, changes neither the flag nor the transcript, and adds nothing
  else; the session goes on with the events that follow, and its outcome is theirs. The
  relay itself stays in its loop exactly when the send to the client returned, as
  for any other message.
\<close>

theorem parse_failure_forwards:
  assumes "parse m = Inl e"
  shows "relay_from_openai parse rio (Text m) s =
           (s, [ToClient (Text m) (succeeded (client_send rio))], succeeded (client_send rio)) \<and>
         (relay_alive s \<longrightarrow>
            forward parse (FromUpstream (Text m) rio # evs) s =
              (case forward parse evs (s\<lparr>relay_alive := succeeded (client_send rio)\<rparr>) of
                 (s', acts, out) \<Rightarrow>
                   (s', ToClient (Text m) (succeeded (client_send rio)) # acts, out)))"
  using assms by (simp add: relay_from_openai_def)

theorem parse_failure_forwards_witness:
  "python_loads truncated_message = Inl (Exn JSONDecodeError ''Expecting value'') \<and>
   relay_alive ready_session \<and>
   relay_from_openai python_loads example_io (Text truncated_message) ready_session =
     (ready_session, [ToClient (Text truncated_message) True], True) \<and>
   forward python_loads
       [FromUpstream (Text truncated_message) example_io,
        FromUpstream (Text committed_message) example_io] ready_session =
     (ready_session\<lparr>awaiting_response := True\<rparr>,
      [ToClient (Text truncated_message) True, AutoResponse True,
       ToClient (Text committed_message) True], Pending)"
proof -
  have a: "relay_alive ready_session"
    by (simp add: ready_session_def)
  have r: "forward python_loads [FromUpstream (Text committed_message) example_io] ready_session =
     (ready_session\<lparr>awaiting_response := True\<rparr>,
      [AutoResponse True, ToClient (Text committed_message) True], Pending)"
    by code_simp
  have k: "ready_session\<lparr>relay_alive := True\<rparr> = ready_session"
    by (simp add: ready_session_def)
  have c: "succeeded (client_send example_io) = True"
    by (simp add: example_io_def)
  show ?thesis
    using truncated_message_parsed a r
      parse_failure_forwards[of python_loads truncated_message
        "Exn JSONDecodeError ''Expecting value''" example_io ready_session
        "[FromUpstream (Text committed_message) example_io]", OF truncated_message_parsed]
    by (simp add: c k del: forward.simps)
qed

section \<open>What a session leaves behind\<close>

text \<open>
  The error messages that the bridge itself sends to the client, in order, each with the
  flag of its send: the client has received the message only if the flag is \<^const>\<open>True\<close>.
\<close>

definition client_errors :: "action list \<Rightarrow> (string \<times> bool) list" where
  "client_errors acts =
     concat (map (\<lambda>a. case a of ClientError m b \<Rightarrow> [(m, b)] | _ \<Rightarrow> []) acts)"

lemma client_errors_simps:
  "client_errors [] = []"
  "client_errors (ClientError m b # acts) = (m, b) # client_errors acts"
  "client_errors (ClientReady b # acts) = client_errors acts"
  "client_errors (ToClient f b # acts) = client_errors acts"
  "client_errors (Connect b # acts) = client_errors acts"
  "client_errors (Configure i b # acts) = client_errors acts"
  "client_errors (AutoResponse b # acts) = client_errors acts"
  "client_errors (ToUpstream f b # acts) = client_errors acts"
  "client_errors (CloseUpstream # acts) = client_errors acts"
  "client_errors (xs @ ys) = client_errors xs @ client_errors ys"
  by (simp_all add: client_errors_def)

lemma relay_from_openai_frame:
  "session_type (fst (relay_from_openai parse rio msg s)) = session_type s"
  "openai_ws (fst (relay_from_openai parse rio msg s)) = openai_ws s"
  "client_errors (fst (snd (relay_from_openai parse rio msg s))) = []"
  by (auto simp add: relay_from_openai_def Let_def append_fragment_def client_errors_simps
        split: frame.splits sum.splits json.splits)

lemma client_message_frame:
  "session_type (fst (client_message parse io ev s)) = session_type s"
  "openai_ws (fst (client_message parse io ev s)) = openai_ws s"
  "conversation_transcript (fst (client_message parse io ev s)) = conversation_transcript s"
  "client_errors (fst (snd (client_message parse io ev s))) = []"
  by (auto simp add: client_message_def Let_def client_errors_simps
        split: client_event.splits sum.splits json.splits)

text \<open>
  Neither loop changes the session type or the upstream socket, and neither sends an
  error message of the bridge's own.
\<close>

lemma forward_frame:
  "session_type (fst (forward parse evs s)) = session_type s \<and>
   openai_ws (fst (forward parse evs s)) = openai_ws s \<and>
   client_errors (fst (snd (forward parse evs s))) = []"
proof (induction parse evs s rule: forward.induct)
  case (1 parse s)
  show ?case by (simp add: client_errors_simps)
next
  case (2 parse message rio evs s)
  show ?case
  proof (cases "relay_alive s")
    case True
    obtain s' acts alive where r: "relay_from_openai parse rio message s = (s', acts, alive)"
      by (cases "relay_from_openai parse rio message s") auto
    have f: "session_type s' = session_type s" "openai_ws s' = openai_ws s" "client_errors acts = []"
      using relay_from_openai_frame[of parse rio message s] r by simp_all
    from 2(1)[OF True r[symmetric] refl] f True r show ?thesis
      by (auto simp add: client_errors_simps split: prod.splits)
  next
    case False
    with 2(2) show ?thesis by simp
  qed
next
  case (3 parse evs s)
  then show ?case by simp
next
  case (4 parse ev up_send evs s)
  obtain s' acts st where r: "client_message parse up_send ev s = (s', acts, st)"
    by (cases "client_message parse up_send ev s") auto
  have f: "session_type s' = session_type s" "openai_ws s' = openai_ws s" "client_errors acts = []"
    using client_message_frame[of parse up_send ev s] r by simp_all
  show ?case
  proof (cases st)
    case Continue
    from 4[OF r[symmetric] refl Continue] f r Continue show ?thesis
      by (auto simp add: client_errors_simps split: prod.splits)
  next
    case Break
    with f r show ?thesis by simp
  next
    case (Raised e)
    with f r show ?thesis by simp
  qed
qed

text \<open>An exception leaves the two loops only from a turn of the client loop.\<close>

lemma client_message_raised:
  assumes "snd (snd (client_message parse io ev s)) = Raised e"
  shows "(ev = RecvRaises e \<or> ((\<exists>b. ev = RecvBytes b) \<or> (\<exists>t. ev = RecvText t)) \<and> io = Raise e) \<and>
         exn_kind_of e \<noteq> WebSocketDisconnect"
  using assms
  by (auto simp add: client_message_def after_io_def Let_def
        split: client_event.splits io.splits if_splits)

lemma forward_failed:
  assumes "snd (snd (forward parse evs s)) = Failed e"
  shows "\<exists>ev io. FromClient ev io \<in> set evs \<and>
           (ev = RecvRaises e \<or> ((\<exists>b. ev = RecvBytes b) \<or> (\<exists>t. ev = RecvText t)) \<and> io = Raise e) \<and>
           exn_kind_of e \<noteq> WebSocketDisconnect"
  using assms
proof (induction parse evs s rule: forward.induct)
  case (1 parse s)
  then show ?case by simp
next
  case (2 parse message rio evs s)
  show ?case
  proof (cases "relay_alive s")
    case True
    obtain s' acts alive where r: "relay_from_openai parse rio message s = (s', acts, alive)"
      by (cases "relay_from_openai parse rio message s") auto
    have "snd (snd (forward parse evs (s'\<lparr>relay_alive := alive\<rparr>))) = Failed e"
      using 2(3) True r by (auto split: prod.splits)
    from 2(1)[OF True r[symmetric] refl this] show ?thesis by auto
  next
    case False
    with 2(2,3) show ?thesis by auto
  qed
next
  case (3 parse evs s)
  then show ?case by auto
next
  case (4 parse ev up_send evs s)
  obtain s' acts st where r: "client_message parse up_send ev s = (s', acts, st)"
    by (cases "client_message parse up_send ev s") auto
  show ?case
  proof (cases st)
    case Continue
    have "snd (snd (forward parse evs s')) = Failed e"
      using 4(2) r Continue by (auto split: prod.splits)
    from 4(1)[OF r[symmetric] refl Continue this] show ?thesis by auto
  next
    case Break
    with 4(2) r show ?thesis by simp
  next
    case (Raised e')
    with 4(2) r have "e' = e" by simp
    with client_message_raised[of parse up_send ev s e] r Raised show ?thesis by auto
  qed
qed

subsection \<open>The database after a session\<close>

lemma str_items_map: "str_items (map JStr ss) = Inr ss"
  by (induction ss) simp_all

lemma str_items_Inr: "str_items xs = Inr ss \<Longrightarrow> xs = map JStr ss"
  by (induction xs arbitrary: ss) (auto split: json.splits sum.splits)

lemma space_join_Inr: "(space_join xs = Inr t) = (\<exists>ss. xs = map JStr ss \<and> t = join '' '' ss)"
  by (auto simp add: space_join_def str_items_map dest: str_items_Inr split: sum.splits)

lemma save_voice_transcript_saved:
  assumes "user_content transcript = map JStr ss" and "ss \<noteq> []"
  shows "save_voice_transcript Ok clk transcript st db =
           db @ [\<lparr>entry_date = today clk, entry_type = voice_type (py_str st),
                  entry_content = join '' '' ss,
                  entry_ai_prompts = json_dumps (transcript_json transcript),
                  entry_created_at = current_timestamp clk\<rparr>]"
  using assms by (simp add: save_voice_transcript_def space_join_def str_items_map Let_def)

lemma save_voice_transcript_changed:
  "(save_voice_transcript db_io clk transcript st db \<noteq> db) =
     (user_content transcript \<noteq> [] \<and> (\<exists>ss. user_content transcript = map JStr ss) \<and> db_io = Ok)"
proof (cases "space_join (user_content transcript)")
  case (Inl e)
  then have "\<not> (\<exists>ss. user_content transcript = map JStr ss)"
    by (auto simp add: space_join_def str_items_map split: sum.splits)
  with Inl show ?thesis by (simp add: save_voice_transcript_def Let_def)
next
  case (Inr t)
  then have "\<exists>ss. user_content transcript = map JStr ss"
    by (auto simp add: space_join_Inr)
  with Inr show ?thesis
    by (cases db_io) (simp_all add: save_voice_transcript_def Let_def)
qed

lemma save_voice_transcript_entry:
  assumes "save_voice_transcript db_io clk transcript st db \<noteq> db"
  shows "\<exists>ss. user_content transcript = map JStr ss \<and> ss \<noteq> [] \<and>
           save_voice_transcript db_io clk transcript st db =
             db @ [\<lparr>entry_date = today clk, entry_type = voice_type (py_str st),
                    entry_content = join '' '' ss,
                    entry_ai_prompts = json_dumps (transcript_json transcript),
                    entry_created_at = current_timestamp clk\<rparr>]"
proof -
  from assms obtain ss where s: "user_content transcript = map JStr ss"
    and n: "user_content transcript \<noteq> []" and o: "db_io = Ok"
    by (auto simp add: save_voice_transcript_changed)
  from s n have "ss \<noteq> []" by auto
  with s o save_voice_transcript_saved[OF s this] show ?thesis by blast
qed

lemma voice_websocket_database:
  "database (voice_websocket parse env db) =
     (if finished (voice_websocket parse env db) \<and>
         conversation_transcript (final (voice_websocket parse env db)) \<noteq> []
      then save_voice_transcript (storage env) (final_clock env)
             (conversation_transcript (final (voice_websocket parse env db)))
             (session_type (final (voice_websocket parse env db))) db
      else db)"
  by (simp add: voice_websocket_def Let_def split: prod.splits outcome.splits)

lemma user_content_empty:
  "(user_content transcript \<noteq> []) = (\<exists>f \<in> set transcript. role f = ''user'')"
  by (auto simp add: user_content_def filter_empty_conv)

lemma session_body_session_type:
  assumes "api_key env = Some k" and "k \<noteq> []" and "config_receive env = Inr c"
    and "parse c = Inr (JObj d)"
  shows "session_type (fst (session_body parse env)) = dict_get d ''session_type'' (JStr ''reflection'')"
  using assms
    forward_frame[of parse "events env"
      "\<lparr>openai_ws = True, conversation_transcript = [],
        session_type = dict_get d ''session_type'' (JStr ''reflection''),
        awaiting_response = False, relay_alive = True\<rparr>"]
  by (auto simp add: session_body_def Let_def initial_session_def
        split: io.splits sum.splits prod.splits)

lemma voice_websocket_final:
  "final (voice_websocket parse env db) = fst (session_body parse env)"
  by (simp add: voice_websocket_def Let_def split: prod.splits outcome.splits)

section \<open>The missing credential\<close>

lemma key_error_text:
  \<open>error_message ''OpenAI API key not configured'' =
     ''{"type": "error", "message": "OpenAI API key not configured"}''\<close>
  by code_simp

text \<open>
  C7. When \<^verbatim>\<open>OPENAI_API_KEY\<close> is unset or empty, the first thing the bridge does is to send
  the client the error message \<^verbatim>\<open>OpenAI API key not configured\<close>; the session is over at
  once, nothing is ever done on an upstream socket and the table is as it was. (Should
  that send raise, the handler of the outer \<^verbatim>\<open>try\<close> sends a second error message.)
\<close>

theorem missing_key_ends_session:
  assumes "api_key env = None \<or> api_key env = Some []"
  shows "voice_websocket parse env db =
           \<lparr>trace =
              ClientError ''OpenAI API key not configured'' (succeeded (key_error_send env)) #
                (case key_error_send env of
                   Ok \<Rightarrow> []
                 | Raise e \<Rightarrow> [ClientError (exn_text e) (succeeded (error_send env))]),
            database = db, finished = True, final = initial_session\<rparr> \<and>
         wire (ClientError ''OpenAI API key not configured'' (succeeded (key_error_send env))) =
           Some (Client, Text (error_message ''OpenAI API key not configured'')) \<and>
         [a \<leftarrow> trace (voice_websocket parse env db). \<exists>f. wire a = Some (Upstream, f)] = [] \<and>
         Connect True \<notin> set (trace (voice_websocket parse env db)) \<and>
         Connect False \<notin> set (trace (voice_websocket parse env db))"
  using assms
  by (cases "key_error_send env")
     (auto simp add: voice_websocket_def session_body_def Let_def initial_session_def)

theorem missing_key_ends_session_witness:
  \<open>api_key ((example_environment example_events)\<lparr>api_key := None\<rparr>) = None \<and>
   voice_websocket python_loads ((example_environment example_events)\<lparr>api_key := None\<rparr>) [] =
     \<lparr>trace = [ClientError ''OpenAI API key not configured'' True],
      database = [], finished = True, final = initial_session\<rparr> \<and>
   wire (ClientError ''OpenAI API key not configured'' True) =
     Some (Client, Text ''{"type": "error", "message": "OpenAI API key not configured"}'')\<close>
  using missing_key_ends_session[of "(example_environment example_events)\<lparr>api_key := None\<rparr>"
          python_loads "[]"] key_error_text
  by (simp add: example_environment_def)

section \<open>When a transcript is saved\<close>

text \<open>
  C3, as the code has it. A session adds at most one row. It adds one if and only if it
  has ended, at least one \<^verbatim>\<open>user\<close> fragment was recorded, the content of every \<^verbatim>\<open>user\<close>
  fragment is a string, and the insert into the table does not raise. A session with no
  fragment, or with \<^verbatim>\<open>assistant\<close> fragments only, adds none.
\<close>

theorem transcript_saved_iff:
  "(database (voice_websocket parse env db) \<noteq> db) =
     (finished (voice_websocket parse env db) \<and>
      (\<exists>f \<in> set (conversation_transcript (final (voice_websocket parse env db))). role f = ''user'') \<and>
      (\<exists>ss. user_content (conversation_transcript (final (voice_websocket parse env db))) = map JStr ss) \<and>
      storage env = Ok) \<and>
   (database (voice_websocket parse env db) = db \<or>
    (\<exists>row. database (voice_websocket parse env db) = db @ [row]))"
proof -
  let ?r = "voice_websocket parse env db"
  let ?t = "conversation_transcript (final ?r)"
  let ?save = "save_voice_transcript (storage env) (final_clock env) ?t (session_type (final ?r)) db"
  have u: "user_content ?t \<noteq> [] \<Longrightarrow> ?t \<noteq> []"
    by (auto simp add: user_content_def)
  have d: "database ?r = (if finished ?r \<and> ?t \<noteq> [] then ?save else db)"
    by (rule voice_websocket_database)
  have 1: "(database ?r \<noteq> db) =
             (finished ?r \<and> (\<exists>f \<in> set ?t. role f = ''user'') \<and>
              (\<exists>ss. user_content ?t = map JStr ss) \<and> storage env = Ok)"
    using u by (auto simp add: d save_voice_transcript_changed user_content_empty)
  have 2: "database ?r = db \<or> (\<exists>row. database ?r = db @ [row])"
  proof (cases "database ?r = db")
    case True
    then show ?thesis by simp
  next
    case False
    then have "?save \<noteq> db" and "database ?r = ?save"
      by (auto simp add: d split: if_splits)
    with save_voice_transcript_entry[of "storage env" "final_clock env" ?t "session_type (final ?r)" db]
    show ?thesis by auto
  qed
  from 1 2 show ?thesis by blast
qed

text \<open>
  Four sessions, run to their end: the example session; one in which only the assistant
  spoke; the example session with the table locked; and one whose only transcription
  carries \<^verbatim>\<open>null\<close>.
\<close>

definition assistant_only_events :: "event list" where
  "assistant_only_events =
     [FromUpstream (Text assistant_said_B) example_io, FromClient RecvDisconnect Ok]"

definition locked_environment :: "event list \<Rightarrow> environment" where
  "locked_environment evs =
     (example_environment evs)\<lparr>storage := Raise (Exn OtherException ''database is locked'')\<rparr>"

definition null_transcript_events :: "event list" where
  \<open>null_transcript_events =
     [FromUpstream (Text ''{"type": "conversation.item.input_audio_transcription.completed", "transcript": null}'') example_io,
      FromClient RecvDisconnect Ok]\<close>

definition example_transcript :: "fragment list" where
  "example_transcript =
     [\<lparr>role = ''user'', content = JStr ''A'', timestamp = ''2026-01-05T08:30:00''\<rparr>,
      \<lparr>role = ''assistant'', content = JStr ''B'', timestamp = ''2026-01-05T08:30:00''\<rparr>,
      \<lparr>role = ''user'', content = JStr ''C'', timestamp = ''2026-01-05T08:30:00''\<rparr>]"

definition example_trace :: "action list" where
  "example_trace =
     [Connect True, Configure (the (map_of VOICE_PROMPTS ''reflection'')) True, ClientReady True,
      ToUpstream (Bytes ''audio'') True, AutoResponse True,
      ToClient (Text committed_message) True, ToClient (Text user_said_A) True,
      ToClient (Text assistant_said_B) True, ToClient (Text user_said_C) True, CloseUpstream]"

definition example_final :: session where
  "example_final =
     \<lparr>openai_ws = True, conversation_transcript = example_transcript,
      session_type = JStr ''journal'', awaiting_response = False, relay_alive = False\<rparr>"

lemma example_run:
  \<open>voice_websocket python_loads (example_environment example_events) [] =
     \<lparr>trace = example_trace,
      database =
        [\<lparr>entry_date = ''2026-01-05'', entry_type = ''voice_journal'', entry_content = ''A C'',
          entry_ai_prompts = ''[{"role": "user", "content": "A", "timestamp": "2026-01-05T08:30:00"}, {"role": "assistant", "content": "B", "timestamp": "2026-01-05T08:30:00"}, {"role": "user", "content": "C", "timestamp": "2026-01-05T08:30:00"}]'',
          entry_created_at = 100\<rparr>],
      finished = True, final = example_final\<rparr>\<close>
  by code_simp

lemma locked_run:
  "voice_websocket python_loads (locked_environment example_events) [] =
     \<lparr>trace = example_trace, database = [], finished = True, final = example_final\<rparr>"
  by code_simp

lemma assistant_only_run:
  "voice_websocket python_loads (example_environment assistant_only_events) [] =
     \<lparr>trace =
        [Connect True, Configure (the (map_of VOICE_PROMPTS ''reflection'')) True, ClientReady True,
         ToClient (Text assistant_said_B) True, CloseUpstream],
      database = [], finished = True,
      final =
        \<lparr>openai_ws = True,
         conversation_transcript =
           [\<lparr>role = ''assistant'', content = JStr ''B'', timestamp = ''2026-01-05T08:30:00''\<rparr>],
         session_type = JStr ''journal'', awaiting_response = False, relay_alive = False\<rparr>\<rparr>"
  by code_simp

lemma null_transcript_run:
  "database (voice_websocket python_loads (example_environment null_transcript_events) []) = [] \<and>
   finished (voice_websocket python_loads (example_environment null_transcript_events) []) \<and>
   conversation_transcript
      (final (voice_websocket python_loads (example_environment null_transcript_events) [])) =
     [\<lparr>role = ''user'', content = JNull, timestamp = ''2026-01-05T08:30:00''\<rparr>]"
  by code_simp

theorem transcript_saved_iff_witness:
  "finished (voice_websocket python_loads (example_environment example_events) []) \<and>
   map role (conversation_transcript
      (final (voice_websocket python_loads (example_environment example_events) []))) =
     [''user'', ''assistant'', ''user''] \<and>
   database (voice_websocket python_loads (example_environment example_events) []) \<noteq> [] \<and>
   finished (voice_websocket python_loads (example_environment assistant_only_events) []) \<and>
   map role (conversation_transcript
      (final (voice_websocket python_loads (example_environment assistant_only_events) []))) =
     [''assistant''] \<and>
   database (voice_websocket python_loads (example_environment assistant_only_events) []) = []"
proof -
  let ?r = "voice_websocket python_loads (example_environment example_events) []"
  let ?q = "voice_websocket python_loads (example_environment assistant_only_events) []"
  have f: "finished ?r" and fq: "finished ?q"
    by (simp_all add: example_run assistant_only_run)
  have ro: "map role (conversation_transcript (final ?r)) = [''user'', ''assistant'', ''user'']"
    by (simp add: example_run example_final_def example_transcript_def)
  have rq: "map role (conversation_transcript (final ?q)) = [''assistant'']"
    by (simp add: assistant_only_run)
  have u: "user_content (conversation_transcript (final ?r)) = map JStr [''A'', ''C'']"
    by (simp add: example_run example_final_def example_transcript_def user_content_def)
  have uq: "user_content (conversation_transcript (final ?q)) = []"
    by (simp add: assistant_only_run user_content_def)
  have a: "\<exists>f \<in> set (conversation_transcript (final ?r)). role f = ''user''"
    unfolding user_content_empty[symmetric] u by simp
  have b: "\<not> (\<exists>f \<in> set (conversation_transcript (final ?q)). role f = ''user'')"
    unfolding user_content_empty[symmetric] uq by simp
  have c: "\<exists>ss. user_content (conversation_transcript (final ?r)) = map JStr ss"
    using u by blast
  have s: "storage (example_environment example_events) = Ok"
    by (simp add: example_environment_def)
  from transcript_saved_iff[of python_loads "example_environment example_events" "[]"] a c s f
  have 1: "database ?r \<noteq> []" by blast
  from transcript_saved_iff[of python_loads "example_environment assistant_only_events" "[]"] b
  have 2: "database ?q = []" by blast
  from 1 2 f fq ro rq show ?thesis by blast
qed

text \<open>
  The claim as the specification words it fails in two ways. With the table locked, a
  session in which the user spoke twice ends and leaves no row; and so does a session
  whose one \<^verbatim>\<open>user\<close> fragment carries \<^verbatim>\<open>null\<close> for its transcript.
\<close>

theorem user_spoke_nothing_saved:
  "finished (voice_websocket python_loads (locked_environment example_events) []) \<and>
   map role (conversation_transcript
      (final (voice_websocket python_loads (locked_environment example_events) []))) =
     [''user'', ''assistant'', ''user''] \<and>
   database (voice_websocket python_loads (locked_environment example_events) []) = [] \<and>
   finished (voice_websocket python_loads (example_environment null_transcript_events) []) \<and>
   conversation_transcript
      (final (voice_websocket python_loads (example_environment null_transcript_events) [])) =
     [\<lparr>role = ''user'', content = JNull, timestamp = ''2026-01-05T08:30:00''\<rparr>] \<and>
   database (voice_websocket python_loads (example_environment null_transcript_events) []) = []"
  using null_transcript_run
  by (simp add: locked_run example_final_def example_transcript_def)

section \<open>The type tag of a voice entry\<close>

lemma get_session_prompt_string:
  "\<exists>p. get_session_prompt (JStr s) True = Inr p \<and>
       (s \<notin> {''reflection'', ''planning'', ''notes'', ''goals''} \<longrightarrow>
          map_of VOICE_PROMPTS ''reflection'' = Some p)"
proof (cases "s \<in> {''reflection'', ''planning'', ''notes'', ''goals''}")
  case True
  then show ?thesis
    by (auto simp add: get_session_prompt_def subscript_def table_get_def VOICE_PROMPTS_def)
next
  case False
  have "map_of VOICE_PROMPTS ''reflection'' = Some (the (map_of VOICE_PROMPTS ''reflection''))"
    by (simp add: VOICE_PROMPTS_def)
  with get_session_prompt_unknown(1)[OF False] show ?thesis by blast
qed

text \<open>
  C10. Let the client's first message be an object whose \<^verbatim>\<open>session_type\<close> is the string
  \<open>s\<close>, known or not. Whatever happens afterwards, a row that the session adds has the
  type \<^verbatim>\<open>voice_\<close> followed by \<open>s\<close> itself. The fallback to reflection touches only the
  instructions sent upstream: they are what \<^const>\<open>get_session_prompt\<close> returns for \<open>s\<close>,
  the reflection prompt when \<open>s\<close> is not one of the four known types.
\<close>

theorem voice_entry_type_is_raw:
  assumes "api_key env = Some k" and "k \<noteq> []" and "config_receive env = Inr c"
    and "parse c = Inr (JObj d)"
    and "dict_get d ''session_type'' (JStr ''reflection'') = JStr s"
  shows "(database (voice_websocket parse env db) = db \<or>
          (\<exists>row. database (voice_websocket parse env db) = db @ [row] \<and>
                 entry_type row = ''voice_'' @ s)) \<and>
         (\<exists>p. get_session_prompt (JStr s) True = Inr p \<and>
              (s \<notin> {''reflection'', ''planning'', ''notes'', ''goals''} \<longrightarrow>
                 map_of VOICE_PROMPTS ''reflection'' = Some p) \<and>
              (connect env = Ok \<longrightarrow>
                 Configure p (succeeded (configure_send env))
                   \<in> set (trace (voice_websocket parse env db))))"
proof -
  let ?r = "voice_websocket parse env db"
  let ?t = "conversation_transcript (final ?r)"
  let ?save = "save_voice_transcript (storage env) (final_clock env) ?t (session_type (final ?r)) db"
  have st: "session_type (final ?r) = JStr s"
    using session_body_session_type[OF assms(1-3), of parse d] assms(4,5)
    by (simp add: voice_websocket_final)
  have 1: "database ?r = db \<or> (\<exists>row. database ?r = db @ [row] \<and> entry_type row = ''voice_'' @ s)"
  proof (cases "database ?r = db")
    case True
    then show ?thesis by simp
  next
    case False
    then have "?save \<noteq> db" and "database ?r = ?save"
      using voice_websocket_database[of parse env db] by (auto split: if_splits)
    with save_voice_transcript_entry[of "storage env" "final_clock env" ?t "session_type (final ?r)" db]
    show ?thesis
      by (auto simp add: st py_str_def voice_type_def)
  qed
  obtain p where p: "get_session_prompt (JStr s) True = Inr p"
    and q: "s \<notin> {''reflection'', ''planning'', ''notes'', ''goals''} \<longrightarrow>
              map_of VOICE_PROMPTS ''reflection'' = Some p"
    using get_session_prompt_string[of s] by blast
  have "Configure p (succeeded (configure_send env)) \<in> set (trace ?r)" if "connect env = Ok"
    using configure_in_trace[of env k c parse d p db] assms that p by simp
  with 1 p q show ?thesis by blast
qed

theorem voice_entry_type_is_raw_witness:
  "api_key (example_environment example_events) = Some ''sk-test'' \<and>
   config_receive (example_environment example_events) = Inr example_config \<and>
   python_loads example_config = Inr (JObj [(''session_type'', JStr ''journal'')]) \<and>
   database (voice_websocket python_loads (example_environment example_events) []) \<noteq> [] \<and>
   entry_type (last (database (voice_websocket python_loads (example_environment example_events) [])))
     = ''voice_journal'' \<and>
   (\<exists>p. map_of VOICE_PROMPTS ''reflection'' = Some p \<and>
        Configure p True
          \<in> set (trace (voice_websocket python_loads (example_environment example_events) [])))"
proof -
  let ?r = "voice_websocket python_loads (example_environment example_events) []"
  have k: "''sk-test'' \<noteq> []" by simp
  have d: "dict_get [(''session_type'', JStr ''journal'')] ''session_type'' (JStr ''reflection'')
             = JStr ''journal''"
    by (simp add: dict_get_def)
  have n: "database ?r \<noteq> []"
    by (simp add: example_run)
  have u: "''journal'' \<notin> {''reflection'', ''planning'', ''notes'', ''goals''}"
    by simp
  note t = voice_entry_type_is_raw[of "example_environment example_events" "''sk-test''"
      example_config python_loads "[(''session_type'', JStr ''journal'')]" "''journal''" "[]",
      OF example_environment_simps(1) k example_environment_simps(3) example_config_parsed d]
  from t n have "\<exists>row. database ?r = [] @ [row] \<and> entry_type row = ''voice_'' @ ''journal''"
    by blast
  then have 1: "entry_type (last (database ?r)) = ''voice_journal''"
    by auto
  from t u example_environment_simps(4,5)[of example_events]
  have 2: "\<exists>p. map_of VOICE_PROMPTS ''reflection'' = Some p \<and> Configure p True \<in> set (trace ?r)"
    by auto
  from 1 2 n example_config_parsed show ?thesis
    by (simp add: example_environment_simps)
qed

section \<open>Error messages to the client\<close>

text \<open>The state in which the two loops start, for the client's configuration \<open>d\<close>.\<close>

definition configured_session :: "(string \<times> json) list \<Rightarrow> session" where
  "configured_session d =
     \<lparr>openai_ws = True, conversation_transcript = [],
      session_type = dict_get d ''session_type'' (JStr ''reflection''),
      awaiting_response = False, relay_alive = True\<rparr>"

lemma forward_no_errors:
  "forward parse evs s = (s', acts, out) \<Longrightarrow> client_errors acts = []"
  using forward_frame[of parse evs s] by simp

lemma errors_without_key:
  assumes "api_key env = None \<or> api_key env = Some []"
  shows "client_errors (trace (voice_websocket parse env db)) =
           (''OpenAI API key not configured'', succeeded (key_error_send env)) #
           (case key_error_send env of
              Ok \<Rightarrow> []
            | Raise e \<Rightarrow> [(exn_text e, succeeded (error_send env))])"
  using assms
  by (cases "key_error_send env")
     (auto simp add: voice_websocket_def session_body_def Let_def initial_session_def
        client_errors_simps)

lemma errors_after_setup:
  assumes "api_key env = Some k" and "k \<noteq> []" and "config_receive env = Inr c"
    and "parse c = Inr (JObj d)" and "connect env = Ok"
    and "get_session_prompt (dict_get d ''session_type'' (JStr ''reflection'')) True = Inr p"
    and "configure_send env = Ok" and "ready_send env = Ok"
  shows "client_errors (trace (voice_websocket parse env db)) =
           (case snd (snd (forward parse (events env) (configured_session d))) of
              Failed e \<Rightarrow> [(exn_text e, succeeded (error_send env))]
            | _ \<Rightarrow> [])"
proof -
  obtain s' acts out where f: "forward parse (events env) (configured_session d) = (s', acts, out)"
    by (cases "forward parse (events env) (configured_session d)") auto
  have n: "client_errors acts = []"
    by (rule forward_no_errors[OF f])
  have b: "session_body parse env =
             (s', [Connect True, Configure p True, ClientReady True] @ acts, out)"
    using assms f
    by (simp add: session_body_def Let_def initial_session_def configured_session_def)
  show ?thesis
    by (cases out)
       (simp_all add: voice_websocket_def b f n Let_def client_errors_simps)
qed

lemma errors_of_setup:
  assumes "api_key env = Some k" and "k \<noteq> []"
  shows "client_errors (trace (voice_websocket parse env db)) =
     (case config_receive env of
        Inl e \<Rightarrow> [(exn_text e, succeeded (error_send env))]
      | Inr c \<Rightarrow>
          (case parse c of
             Inl e \<Rightarrow> [(exn_text e, succeeded (error_send env))]
           | Inr config \<Rightarrow>
               (case config of
                  JObj d \<Rightarrow>
                    (case connect env of
                       Raise e \<Rightarrow> [(exn_text e, succeeded (error_send env))]
                     | Ok \<Rightarrow>
                         (case get_session_prompt
                                 (dict_get d ''session_type'' (JStr ''reflection'')) True of
                            Inl e \<Rightarrow> [(exn_text e, succeeded (error_send env))]
                          | Inr p \<Rightarrow>
                              (case configure_send env of
                                 Raise e \<Rightarrow> [(exn_text e, succeeded (error_send env))]
                               | Ok \<Rightarrow>
                                   (case ready_send env of
                                      Raise e \<Rightarrow> [(exn_text e, succeeded (error_send env))]
                                    | Ok \<Rightarrow>
                                        (case snd (snd (forward parse (events env)
                                                          (configured_session d))) of
                                           Failed e \<Rightarrow> [(exn_text e, succeeded (error_send env))]
                                         | _ \<Rightarrow> [])))))
                | _ \<Rightarrow> [(exn_text (no_attribute_get config), succeeded (error_send env))])))"
proof (cases "config_receive env")
  case (Inl e)
  with assms show ?thesis
    by (simp add: voice_websocket_def session_body_def Let_def initial_session_def
          client_errors_simps)
next
  case c: (Inr c)
  show ?thesis
  proof (cases "parse c")
    case (Inl e)
    with assms c show ?thesis
      by (simp add: voice_websocket_def session_body_def Let_def initial_session_def
            client_errors_simps)
  next
    case config: (Inr config)
    show ?thesis
    proof (cases "\<exists>d. config = JObj d")
      case False
      with assms c config show ?thesis
        by (cases config)
           (simp_all add: voice_websocket_def session_body_def Let_def initial_session_def
              client_errors_simps)
    next
      case True
      then obtain d where d: "config = JObj d" by blast
      show ?thesis
      proof (cases "connect env")
        case (Raise e)
        with assms c config d show ?thesis
          by (simp add: voice_websocket_def session_body_def Let_def initial_session_def
                client_errors_simps)
      next
        case Ok
        note co = Ok
        show ?thesis
        proof (cases "get_session_prompt (dict_get d ''session_type'' (JStr ''reflection'')) True")
          case (Inl e)
          with assms c config d co show ?thesis
            by (simp add: voice_websocket_def session_body_def Let_def initial_session_def
                  client_errors_simps)
        next
          case p: (Inr p)
          show ?thesis
          proof (cases "configure_send env")
            case (Raise e)
            with assms c config d co p show ?thesis
              by (simp add: voice_websocket_def session_body_def Let_def initial_session_def
                    client_errors_simps)
          next
            case Ok
            note cs = Ok
            show ?thesis
            proof (cases "ready_send env")
              case (Raise e)
              with assms c config d co p cs show ?thesis
                by (simp add: voice_websocket_def session_body_def Let_def initial_session_def
                      client_errors_simps)
            next
              case Ok
              from errors_after_setup[OF assms c _ co p cs Ok, of parse db] config d
              have "client_errors (trace (voice_websocket parse env db)) =
                      (case snd (snd (forward parse (events env) (configured_session d))) of
                         Failed e \<Rightarrow> [(exn_text e, succeeded (error_send env))]
                       | _ \<Rightarrow> [])"
                by simp
              then show ?thesis
                by (simp add: c config d co p cs Ok)
            qed
          qed
        qed
      qed
    qed
  qed
qed

text \<open>
  C6, as the code has it. The bridge sends the client an error message of its own for the
  missing credential and for every exception that leaves the body of the outer \<^verbatim>\<open>try\<close>,
  and for nothing else; the client has received it unless that send raised as well.
  Every failure of the set-up leaves the body: the receive of the configuration raising,
  a configuration that is not JSON or not an object, the connection refused, a session
  type that cannot be hashed, and the send of \<^verbatim>\<open>session.update\<close> or of the ready
  message raising. Once the set-up is over such an exception can only come from a turn of
  the client loop: a receive from the client or a send to upstream that raises anything
  but \<^verbatim>\<open>WebSocketDisconnect\<close>; and each such exception does leave the body. No message
  handled by \<^const>\<open>relay_from_openai\<close> produces an error message.
\<close>

theorem structured_errors:
  "(api_key env = None \<or> api_key env = Some [] \<longrightarrow>
      client_errors (trace (voice_websocket parse env db)) =
        (''OpenAI API key not configured'', succeeded (key_error_send env)) #
        (case key_error_send env of
           Ok \<Rightarrow> []
         | Raise e \<Rightarrow> [(exn_text e, succeeded (error_send env))])) \<and>
   (api_key env = Some k \<and> k \<noteq> [] \<longrightarrow>
      client_errors (trace (voice_websocket parse env db)) =
        (case config_receive env of
           Inl e \<Rightarrow> [(exn_text e, succeeded (error_send env))]
         | Inr c \<Rightarrow>
             (case parse c of
                Inl e \<Rightarrow> [(exn_text e, succeeded (error_send env))]
              | Inr config \<Rightarrow>
                  (case config of
                     JObj d \<Rightarrow>
                       (case connect env of
                          Raise e \<Rightarrow> [(exn_text e, succeeded (error_send env))]
                        | Ok \<Rightarrow>
                            (case get_session_prompt
                                    (dict_get d ''session_type'' (JStr ''reflection'')) True of
                               Inl e \<Rightarrow> [(exn_text e, succeeded (error_send env))]
                             | Inr p \<Rightarrow>
                                 (case configure_send env of
                                    Raise e \<Rightarrow> [(exn_text e, succeeded (error_send env))]
                                  | Ok \<Rightarrow>
                                      (case ready_send env of
                                         Raise e \<Rightarrow> [(exn_text e, succeeded (error_send env))]
                                       | Ok \<Rightarrow>
                                           (case snd (snd (forward parse (events env)
                                                             (configured_session d))) of
                                              Failed e \<Rightarrow>
                                                [(exn_text e, succeeded (error_send env))]
                                            | _ \<Rightarrow> [])))))
                   | _ \<Rightarrow> [(exn_text (no_attribute_get config), succeeded (error_send env))])))) \<and>
   wire (ClientError m delivered) = Some (Client, Text (error_message m)) \<and>
   client_errors (fst (snd (relay_from_openai parse rio msg s))) = [] \<and>
   (snd (snd (forward parse evs s)) = Failed e \<longrightarrow>
      (\<exists>ev io. FromClient ev io \<in> set evs \<and>
         (ev = RecvRaises e \<or> ((\<exists>b. ev = RecvBytes b) \<or> (\<exists>t. ev = RecvText t)) \<and> io = Raise e) \<and>
         exn_kind_of e \<noteq> WebSocketDisconnect)) \<and>
   (exn_kind_of x \<noteq> WebSocketDisconnect \<longrightarrow>
      snd (snd (forward parse (FromClient (RecvBytes b) (Raise x) # evs) s)) = Failed x \<and>
      snd (snd (forward parse (FromClient (RecvText t) (Raise x) # evs) s)) = Failed x \<and>
      snd (snd (forward parse (FromClient (RecvRaises x) io # evs) s)) = Failed x)"
proof (intro conjI impI)
  assume "api_key env = None \<or> api_key env = Some []"
  then show "client_errors (trace (voice_websocket parse env db)) =
        (''OpenAI API key not configured'', succeeded (key_error_send env)) #
        (case key_error_send env of
           Ok \<Rightarrow> []
         | Raise e \<Rightarrow> [(exn_text e, succeeded (error_send env))])"
    by (rule errors_without_key)
next
  assume "api_key env = Some k \<and> k \<noteq> []"
  then have k: "api_key env = Some k" "k \<noteq> []" by simp_all
  show "client_errors (trace (voice_websocket parse env db)) =
        (case config_receive env of
           Inl e \<Rightarrow> [(exn_text e, succeeded (error_send env))]
         | Inr c \<Rightarrow>
             (case parse c of
                Inl e \<Rightarrow> [(exn_text e, succeeded (error_send env))]
              | Inr config \<Rightarrow>
                  (case config of
                     JObj d \<Rightarrow>
                       (case connect env of
                          Raise e \<Rightarrow> [(exn_text e, succeeded (error_send env))]
                        | Ok \<Rightarrow>
                            (case get_session_prompt
                                    (dict_get d ''session_type'' (JStr ''reflection'')) True of
                               Inl e \<Rightarrow> [(exn_text e, succeeded (error_send env))]
                             | Inr p \<Rightarrow>
                                 (case configure_send env of
                                    Raise e \<Rightarrow> [(exn_text e, succeeded (error_send env))]
                                  | Ok \<Rightarrow>
                                      (case ready_send env of
                                         Raise e \<Rightarrow> [(exn_text e, succeeded (error_send env))]
                                       | Ok \<Rightarrow>
                                           (case snd (snd (forward parse (events env)
                                                             (configured_session d))) of
                                              Failed e \<Rightarrow>
                                                [(exn_text e, succeeded (error_send env))]
                                            | _ \<Rightarrow> [])))))
                   | _ \<Rightarrow> [(exn_text (no_attribute_get config), succeeded (error_send env))])))"
    by (rule errors_of_setup[OF k])
next
  show "wire (ClientError m delivered) = Some (Client, Text (error_message m))"
    by simp
next
  show "client_errors (fst (snd (relay_from_openai parse rio msg s))) = []"
    by (rule relay_from_openai_frame(3))
next
  assume "snd (snd (forward parse evs s)) = Failed e"
  then show "\<exists>ev io. FromClient ev io \<in> set evs \<and>
         (ev = RecvRaises e \<or> ((\<exists>b. ev = RecvBytes b) \<or> (\<exists>t. ev = RecvText t)) \<and> io = Raise e) \<and>
         exn_kind_of e \<noteq> WebSocketDisconnect"
    by (rule forward_failed)
next
  assume "exn_kind_of x \<noteq> WebSocketDisconnect"
  then show "snd (snd (forward parse (FromClient (RecvBytes b) (Raise x) # evs) s)) = Failed x"
    by (simp add: client_message_def after_io_def Let_def)
next
  assume "exn_kind_of x \<noteq> WebSocketDisconnect"
  then show "snd (snd (forward parse (FromClient (RecvText t) (Raise x) # evs) s)) = Failed x"
    by (simp add: client_message_def after_io_def Let_def)
next
  assume "exn_kind_of x \<noteq> WebSocketDisconnect"
  then show "snd (snd (forward parse (FromClient (RecvRaises x) io # evs) s)) = Failed x"
    by (simp add: client_message_def after_io_def Let_def)
qed

text \<open>
  Four sessions that fail. The connection to upstream is refused. The client is gone
  before it has sent its configuration, so that the error message cannot be sent either.
  The client's first message is not an object. Upstream closes in the middle of a
  session, and the next audio from the client cannot be sent on.
\<close>

definition refused_environment :: environment where
  "refused_environment =
     (example_environment example_events)\<lparr>connect := Raise (Exn OtherException ''Connection refused'')\<rparr>"

definition gone_environment :: environment where
  "gone_environment =
     (example_environment example_events)
       \<lparr>config_receive := Inl (Exn WebSocketDisconnect []),
        error_send := Raise (Exn OtherException ''Unexpected ASGI message'')\<rparr>"

definition list_environment :: environment where
  "list_environment = (example_environment example_events)\<lparr>config_receive := Inr ''[1]''\<rparr>"

definition upstream_dropped_events :: "event list" where
  "upstream_dropped_events =
     [FromUpstream (Text committed_message) example_io,
      UpstreamEnds,
      FromClient (RecvBytes ''audio'')
        (Raise (Exn ConnectionClosed ''no close frame received or sent''))]"

lemma upstream_dropped_text:
  \<open>error_message ''no close frame received or sent'' =
     ''{"type": "error", "message": "no close frame received or sent"}''\<close>
  by code_simp

lemma upstream_dropped_outcome:
  "snd (snd (forward python_loads upstream_dropped_events
               (configured_session [(''session_type'', JStr ''journal'')]))) =
     Failed (Exn ConnectionClosed ''no close frame received or sent'')"
  by code_simp

lemma example_outcome:
  "snd (snd (forward python_loads example_events
               (configured_session [(''session_type'', JStr ''journal'')]))) = Returned"
  by code_simp

lemma list_config_parsed: "python_loads ''[1]'' = Inr (JArr [JInt 1])"
  by code_simp

lemma journal_prompt:
  "get_session_prompt (dict_get [(''session_type'', JStr ''journal'')] ''session_type''
       (JStr ''reflection'')) True = Inr (the (map_of VOICE_PROMPTS ''reflection''))"
proof -
  have "''journal'' \<notin> {''reflection'', ''planning'', ''notes'', ''goals''}"
    by simp
  from get_session_prompt_unknown(1)[OF this] show ?thesis
    by (simp add: dict_get_def)
qed

theorem structured_errors_witness:
  "client_errors (trace (voice_websocket python_loads refused_environment [])) =
     [(''Connection refused'', True)] \<and>
   client_errors (trace (voice_websocket python_loads gone_environment [])) = [([], False)] \<and>
   client_errors (trace (voice_websocket python_loads list_environment [])) =
     [(exn_text (no_attribute_get (JArr [JInt 1])), True)] \<and>
   client_errors (trace (voice_websocket python_loads
       (example_environment upstream_dropped_events) [])) =
     [(''no close frame received or sent'', True)] \<and>
   client_errors (trace (voice_websocket python_loads (example_environment example_events) [])) = [] \<and>
   client_errors (trace (voice_websocket python_loads
       ((example_environment example_events)\<lparr>api_key := Some []\<rparr>) [])) =
     [(''OpenAI API key not configured'', True)] \<and>
   client_errors (fst (snd (relay_from_openai python_loads closed_io (Text truncated_message)
       ready_session))) = []"
proof -
  have k: "''sk-test'' \<noteq> []" by simp
  have 1: "client_errors (trace (voice_websocket python_loads refused_environment [])) =
             [(''Connection refused'', True)]"
    using structured_errors[where env = refused_environment and parse = python_loads
        and db = "[]" and k = "''sk-test''"] example_config_parsed
    by (simp add: refused_environment_def example_environment_def)
  have 2: "client_errors (trace (voice_websocket python_loads gone_environment [])) = [([], False)]"
    using structured_errors[where env = gone_environment and parse = python_loads
        and db = "[]" and k = "''sk-test''"]
    by (simp add: gone_environment_def example_environment_def)
  have 3: "client_errors (trace (voice_websocket python_loads list_environment [])) =
             [(exn_text (no_attribute_get (JArr [JInt 1])), True)]"
    using structured_errors[where env = list_environment and parse = python_loads
        and db = "[]" and k = "''sk-test''"] list_config_parsed
    by (simp add: list_environment_def example_environment_def)
  have 4: "client_errors (trace (voice_websocket python_loads
             (example_environment upstream_dropped_events) [])) =
             [(''no close frame received or sent'', True)]"
    using structured_errors[where env = "example_environment upstream_dropped_events"
        and parse = python_loads and db = "[]" and k = "''sk-test''"]
      example_config_parsed journal_prompt upstream_dropped_outcome
    by (simp add: example_environment_simps)
  have 5: "client_errors (trace (voice_websocket python_loads
             (example_environment example_events) [])) = []"
    using structured_errors[where env = "example_environment example_events"
        and parse = python_loads and db = "[]" and k = "''sk-test''"]
      example_config_parsed journal_prompt example_outcome
    by (simp add: example_environment_simps)
  have 6: "client_errors (trace (voice_websocket python_loads
             ((example_environment example_events)\<lparr>api_key := Some []\<rparr>) [])) =
             [(''OpenAI API key not configured'', True)]"
    using structured_errors[where env = "(example_environment example_events)\<lparr>api_key := Some []\<rparr>"
        and parse = python_loads and db = "[]"]
    by (simp add: example_environment_def)
  have 7: "client_errors (fst (snd (relay_from_openai python_loads closed_io
             (Text truncated_message) ready_session))) = []"
    using structured_errors[where parse = python_loads and rio = closed_io
        and msg = "Text truncated_message" and s = ready_session]
    by blast
  from 1 2 3 4 5 6 7 show ?thesis by blast
qed

text \<open>
  The claim as the specification words it fails there: the session was established, the
  failure is a transport failure in the middle of it, and the client is sent
  \<^verbatim>\<open>{"type": "error", ...}\<close>.
\<close>

theorem mid_session_failure_sends_error:
  \<open>trace (voice_websocket python_loads (example_environment upstream_dropped_events) []) =
     [Connect True, Configure (the (map_of VOICE_PROMPTS ''reflection'')) True, ClientReady True,
      AutoResponse True, ToClient (Text committed_message) True,
      ToUpstream (Bytes ''audio'') False,
      ClientError ''no close frame received or sent'' True, CloseUpstream] \<and>
   wire (ClientError ''no close frame received or sent'' True) =
     Some (Client, Text ''{"type": "error", "message": "no close frame received or sent"}'')\<close>
proof (intro conjI)
  show "trace (voice_websocket python_loads (example_environment upstream_dropped_events) []) =
     [Connect True, Configure (the (map_of VOICE_PROMPTS ''reflection'')) True, ClientReady True,
      AutoResponse True, ToClient (Text committed_message) True,
      ToUpstream (Bytes ''audio'') False,
      ClientError ''no close frame received or sent'' True, CloseUpstream]"
    by code_simp
  show \<open>wire (ClientError ''no close frame received or sent'' True) =
     Some (Client, Text ''{"type": "error", "message": "no close frame received or sent"}'')\<close>
    by (simp add: upstream_dropped_text)
qed

section \<open>Voice entries and text entries of one category\<close>










section \<open>Serialising a value and parsing it back\<close>



definition delimited :: "string \<Rightarrow> bool" where
  "delimited rest =
     (case rest of [] \<Rightarrow> True | c # r \<Rightarrow> c = CHR '','' \<or> c = CHR '']'' \<or> c = CHR ''}'')"


subsection \<open>Strings\<close>





subsection \<open>Integers\<close>

declare show_nat.simps [simp del]















subsection \<open>Arrays and objects\<close>







lemma skip_ws_delimiter [simp]:
  "skip_ws (CHR '','' # s) = CHR '','' # s"
  "skip_ws (CHR '']'' # s) = CHR '']'' # s"
  "skip_ws (CHR ''}'' # s) = CHR ''}'' # s"
  "skip_ws (CHR '':'' # s) = CHR '':'' # s"
  "skip_ws [] = []"
  by (simp_all add: skip_ws_def is_ws_def)

lemma delimited_simps [simp]:
  "delimited []"
  "delimited (CHR '','' # s)"
  "delimited (CHR '']'' # s)"
  "delimited (CHR ''}'' # s)"
  by (simp_all add: delimited_def)













section \<open>The columns of a saved transcript\<close>






end
